theory Spec2Isabelle
  imports Main
begin

text \<open>
  A shallow embedding of the authorization layer of the platform: the task service
  validator, the document authorization predicates, the proxy and logging bridges of the
  query service and the HTTP query handler.  Collaborators behind interfaces (the wrapped
  task service, the document index, the query service, the encoder, the result iterator)
  are records of functions; what a call does to them is kept as a list of calls or
  events, so that the order of the calls can be stated.  Tracing spans are left out.
\<close>

section \<open>Permission model and errors\<close>

text \<open>
  Identifiers are only ever compared for equality by the code modelled here, so the
  unsigned 64-bit \<open>platform.ID\<close> is a natural number.  An action is read or write; a
  resource type is one of the named classes, or any other class name.
\<close>

type_synonym ID = nat

datatype Action = ReadAction | WriteAction

datatype ResourceType =
    DocumentsResourceType
  | OrgsResourceType
  | TasksResourceType
  | BucketsResourceType
  | OtherResourceType string

text \<open>\<open>Resource.ID\<close> and \<open>Resource.OrgID\<close> are pointers in the source: \<open>None\<close> is nil.\<close>

record Resource =
  Type :: ResourceType
  ID :: "ID option"
  OrgID :: "ID option"

record Permission =
  Action :: Action
  Resource :: Resource

datatype ErrCode = EUnauthorized | EInvalid | ENotFound | EInternal

text \<open>
  Errors are values.  \<open>PlatformError\<close> is \<open>platform.Error\<close> with its code, message and
  wrapped error; \<open>AuthError\<close> is the validator's \<open>authError\<close> (the sentinel
  \<open>ErrFailedPermission\<close> with the permission asked for and the identifier of the
  authorizer); \<open>Errorf\<close> is any error made by \<open>fmt.Errorf\<close>, \<open>errors.New\<close> or handed
  back by a collaborator.
\<close>

datatype error =
    PlatformError ErrCode string "error option"
  | AuthError Permission ID
  | Errorf string

section \<open>The task service validator (task/validator.go)\<close>

record Task =
  ID :: ID
  OrganizationID :: ID
  Flux :: string

record TaskCreate =
  Flux :: string
  OrganizationID :: ID

record Run =
  ID :: ID
  TaskID :: ID

text \<open>The log and run filters name their task in the field \<open>Task\<close>.\<close>

record LogFilter =
  Task :: ID

record RunFilter =
  Task :: ID

type_synonym PlatformLog = string

text \<open>
  The \<open>Authorizer\<close> interface, as far as the validator uses it: the method \<open>Allowed\<close>
  and the identifier that goes into the error.  The request context either yields an
  authorizer or the error of \<open>platcontext.GetAuthorizer\<close>.
\<close>

record Authorizer =
  Allowed :: "Permission \<Rightarrow> bool"
  Identifier :: ID

record Context =
  GetAuthorizer :: "error + Authorizer"

text \<open>
  Every call that reaches a wrapped collaborator is recorded, in order, next to the store
  the collaborator works on.  \<open>invoke\<close> runs an operation that may change the store,
  \<open>query\<close> one that only reads it.
\<close>

datatype Call =
    CallFindTaskByID ID
  | CallFindTasks
  | CallCreateTask TaskCreate
  | CallUpdateTask ID
  | CallDeleteTask ID
  | CallFindLogs LogFilter
  | CallFindRuns RunFilter
  | CallFindRunByID ID ID
  | CallCancelRun ID ID
  | CallRetryRun ID ID
  | CallForceRun ID int

record ('s, 'c) World =
  store :: 's
  calls :: "'c list"

definition invoke ::
  "'c \<Rightarrow> ('s \<Rightarrow> 'r \<times> 's) \<Rightarrow> ('s, 'c) World \<Rightarrow> 'r \<times> ('s, 'c) World" where
  "invoke c f w =
     (case f (store w) of (r, s') \<Rightarrow> (r, \<lparr>store = s', calls = calls w @ [c]\<rparr>))"

definition query :: "'c \<Rightarrow> ('s \<Rightarrow> 'r) \<Rightarrow> ('s, 'c) World \<Rightarrow> 'r \<times> ('s, 'c) World" where
  "query c f w = (f (store w), w\<lparr>calls := calls w @ [c]\<rparr>)"

text \<open>The calls an operation made: what it added to the record it started from.\<close>

definition made :: "('s, 'c) World \<Rightarrow> ('s, 'c) World \<Rightarrow> 'c list" where
  "made w w' = drop (length (calls w)) (calls w')"

text \<open>
  The wrapped \<open>platform.TaskService\<close>: each operation reads and updates the store.  The
  list operations return their list, their count and their error side by side, as the Go
  signatures do.  The task filter \<open>'f\<close> and the task update \<open>'u\<close> are passed through
  untouched, so their types are parameters.
\<close>

record ('s, 'f, 'u) TaskService =
  svcFindTaskByID :: "ID \<Rightarrow> 's \<Rightarrow> (error + Task) \<times> 's"
  svcFindTasks :: "'f \<Rightarrow> 's \<Rightarrow> (Task list \<times> int \<times> error option) \<times> 's"
  svcCreateTask :: "TaskCreate \<Rightarrow> 's \<Rightarrow> (error + Task) \<times> 's"
  svcUpdateTask :: "ID \<Rightarrow> 'u \<Rightarrow> 's \<Rightarrow> (error + Task) \<times> 's"
  svcDeleteTask :: "ID \<Rightarrow> 's \<Rightarrow> error option \<times> 's"
  svcFindLogs :: "LogFilter \<Rightarrow> 's \<Rightarrow> (PlatformLog list \<times> int \<times> error option) \<times> 's"
  svcFindRuns :: "RunFilter \<Rightarrow> 's \<Rightarrow> (Run list \<times> int \<times> error option) \<times> 's"
  svcFindRunByID :: "ID \<Rightarrow> ID \<Rightarrow> 's \<Rightarrow> (error + Run) \<times> 's"
  svcCancelRun :: "ID \<Rightarrow> ID \<Rightarrow> 's \<Rightarrow> error option \<times> 's"
  svcRetryRun :: "ID \<Rightarrow> ID \<Rightarrow> 's \<Rightarrow> (error + Run) \<times> 's"
  svcForceRun :: "ID \<Rightarrow> int \<Rightarrow> 's \<Rightarrow> (error + Run) \<times> 's"

text \<open>
  The validator holds the wrapped service and the pre-authorizer.  The permission
  constructors of the platform package and the Flux compiler are declared in other
  packages, so they are fields too: \<open>NewPermission\<close> and \<open>NewPermissionAtID\<close> build
  a permission or fail on an invalid one, \<open>Compile\<close> turns a script into a plan \<open>'p\<close> or
  fails, and \<open>PreAuthorize\<close> accepts or rejects a plan for an authorizer.
\<close>

record ('s, 'f, 'u, 'p) taskServiceValidator =
  TaskService :: "('s, 'f, 'u) TaskService"
  PreAuthorize :: "'p \<Rightarrow> Authorizer \<Rightarrow> error option"
  Compile :: "string \<Rightarrow> error + 'p"
  NewPermission :: "Action \<Rightarrow> ResourceType \<Rightarrow> ID \<Rightarrow> error + Permission"
  NewPermissionAtID :: "ID \<Rightarrow> Action \<Rightarrow> ResourceType \<Rightarrow> ID \<Rightarrow> error + Permission"

definition validatePermission :: "Context \<Rightarrow> Permission \<Rightarrow> error option" where
  "validatePermission ctx perm =
     (case GetAuthorizer ctx of
        Inl err \<Rightarrow> Some err
      | Inr auth \<Rightarrow>
          if \<not> Allowed auth perm then Some (AuthError perm (Identifier auth))
          else None)"

definition validateBucket ::
  "('s, 'f, 'u, 'p) taskServiceValidator \<Rightarrow> Context \<Rightarrow> string \<Rightarrow> error option" where
  "validateBucket ts ctx script =
     (case GetAuthorizer ctx of
        Inl err \<Rightarrow> Some err
      | Inr auth \<Rightarrow>
          (case Compile ts script of
             Inl err \<Rightarrow> Some (PlatformError EInvalid ''Failed to compile flux script.'' (Some err))
           | Inr spec \<Rightarrow>
               (case PreAuthorize ts spec auth of
                  Some err \<Rightarrow> Some (PlatformError EInvalid ''Failed to authorize.'' (Some err))
                | None \<Rightarrow> None)))"

definition FindTaskByID ::
  "('s, 'f, 'u, 'p) taskServiceValidator \<Rightarrow> Context \<Rightarrow> ID \<Rightarrow> ('s, Call) World \<Rightarrow> (error + Task) \<times> ('s, Call) World" where
  "FindTaskByID ts ctx tid w =
     (case invoke (CallFindTaskByID tid) (svcFindTaskByID (TaskService ts) tid) w of
        (Inl err, w1) \<Rightarrow> (Inl err, w1)
      | (Inr task, w1) \<Rightarrow>
          (case NewPermissionAtID ts tid ReadAction TasksResourceType (Task.OrganizationID task) of
             Inl err \<Rightarrow> (Inl err, w1)
           | Inr perm \<Rightarrow>
               (case validatePermission ctx perm of
                  Some err \<Rightarrow> (Inl err, w1)
                | None \<Rightarrow> (Inr task, w1))))"

text \<open>
  The filtering loop of \<open>FindTasks\<close>: \<open>tasks\<close> is the slice built so far, and a task
  whose permission cannot be built or is not allowed is skipped (\<open>continue\<close>).
\<close>

fun FindTasks_loop ::
  "('s, 'f, 'u, 'p) taskServiceValidator \<Rightarrow> Context \<Rightarrow> Task list \<Rightarrow> Task list \<Rightarrow> Task list" where
  "FindTasks_loop ts ctx [] tasks = tasks"
| "FindTasks_loop ts ctx (t # rest) tasks =
     (case NewPermissionAtID ts (Task.ID t) ReadAction TasksResourceType (Task.OrganizationID t) of
        Inl err \<Rightarrow> FindTasks_loop ts ctx rest tasks
      | Inr perm \<Rightarrow>
          (case validatePermission ctx perm of
             Some err \<Rightarrow> FindTasks_loop ts ctx rest tasks
           | None \<Rightarrow> FindTasks_loop ts ctx rest (tasks @ [t])))"

definition FindTasks ::
  "('s, 'f, 'u, 'p) taskServiceValidator \<Rightarrow> Context \<Rightarrow> 'f \<Rightarrow> ('s, Call) World
     \<Rightarrow> (Task list \<times> int \<times> error option) \<times> ('s, Call) World" where
  "FindTasks ts ctx flt w =
     (case invoke CallFindTasks (svcFindTasks (TaskService ts) flt) w of
        ((unauthenticatedTasks, n, Some err), w1) \<Rightarrow> (([], 0, Some err), w1)
      | ((unauthenticatedTasks, n, None), w1) \<Rightarrow>
          (let tasks = FindTasks_loop ts ctx unauthenticatedTasks []
           in ((tasks, int (length tasks), None), w1)))"

definition CreateTask ::
  "('s, 'f, 'u, 'p) taskServiceValidator \<Rightarrow> Context \<Rightarrow> TaskCreate \<Rightarrow> ('s, Call) World
     \<Rightarrow> (error + Task) \<times> ('s, Call) World" where
  "CreateTask ts ctx t w =
     (case NewPermission ts WriteAction TasksResourceType (TaskCreate.OrganizationID t) of
        Inl err \<Rightarrow> (Inl err, w)
      | Inr p \<Rightarrow>
          (case validatePermission ctx p of
             Some err \<Rightarrow> (Inl err, w)
           | None \<Rightarrow>
               (case validateBucket ts ctx (TaskCreate.Flux t) of
                  Some err \<Rightarrow> (Inl err, w)
                | None \<Rightarrow> invoke (CallCreateTask t) (svcCreateTask (TaskService ts) t) w)))"

definition UpdateTask ::
  "('s, 'f, 'u, 'p) taskServiceValidator \<Rightarrow> Context \<Rightarrow> ID \<Rightarrow> 'u \<Rightarrow> ('s, Call) World
     \<Rightarrow> (error + Task) \<times> ('s, Call) World" where
  "UpdateTask ts ctx tid upd w =
     (case invoke (CallFindTaskByID tid) (svcFindTaskByID (TaskService ts) tid) w of
        (Inl err, w1) \<Rightarrow> (Inl err, w1)
      | (Inr task, w1) \<Rightarrow>
          (case NewPermissionAtID ts tid WriteAction TasksResourceType (Task.OrganizationID task) of
             Inl err \<Rightarrow> (Inl err, w1)
           | Inr p \<Rightarrow>
               (case validatePermission ctx p of
                  Some err \<Rightarrow> (Inl err, w1)
                | None \<Rightarrow>
                    (case validateBucket ts ctx (Task.Flux task) of
                       Some err \<Rightarrow> (Inl err, w1)
                     | None \<Rightarrow> invoke (CallUpdateTask tid) (svcUpdateTask (TaskService ts) tid upd) w1))))"

definition DeleteTask ::
  "('s, 'f, 'u, 'p) taskServiceValidator \<Rightarrow> Context \<Rightarrow> ID \<Rightarrow> ('s, Call) World \<Rightarrow> error option \<times> ('s, Call) World" where
  "DeleteTask ts ctx tid w =
     (case invoke (CallFindTaskByID tid) (svcFindTaskByID (TaskService ts) tid) w of
        (Inl err, w1) \<Rightarrow> (Some err, w1)
      | (Inr task, w1) \<Rightarrow>
          (case NewPermissionAtID ts tid WriteAction TasksResourceType (Task.OrganizationID task) of
             Inl err \<Rightarrow> (Some err, w1)
           | Inr p \<Rightarrow>
               (case validatePermission ctx p of
                  Some err \<Rightarrow> (Some err, w1)
                | None \<Rightarrow> invoke (CallDeleteTask tid) (svcDeleteTask (TaskService ts) tid) w1)))"

definition FindLogs ::
  "('s, 'f, 'u, 'p) taskServiceValidator \<Rightarrow> Context \<Rightarrow> LogFilter \<Rightarrow> ('s, Call) World
     \<Rightarrow> (PlatformLog list \<times> int \<times> error option) \<times> ('s, Call) World" where
  "FindLogs ts ctx flt w =
     (case FindTaskByID ts ctx (LogFilter.Task flt) w of
        (Inl err, w1) \<Rightarrow> (([], - 1, Some err), w1)
      | (Inr task, w1) \<Rightarrow> invoke (CallFindLogs flt) (svcFindLogs (TaskService ts) flt) w1)"

definition FindRuns ::
  "('s, 'f, 'u, 'p) taskServiceValidator \<Rightarrow> Context \<Rightarrow> RunFilter \<Rightarrow> ('s, Call) World
     \<Rightarrow> (Run list \<times> int \<times> error option) \<times> ('s, Call) World" where
  "FindRuns ts ctx flt w =
     (case FindTaskByID ts ctx (RunFilter.Task flt) w of
        (Inl err, w1) \<Rightarrow> (([], - 1, Some err), w1)
      | (Inr task, w1) \<Rightarrow>
          (case NewPermissionAtID ts (Task.ID task) ReadAction TasksResourceType (Task.OrganizationID task) of
             Inl err \<Rightarrow> (([], - 1, Some err), w1)
           | Inr perm \<Rightarrow>
               (case validatePermission ctx perm of
                  Some err \<Rightarrow> (([], - 1, Some err), w1)
                | None \<Rightarrow> invoke (CallFindRuns flt) (svcFindRuns (TaskService ts) flt) w1)))"

definition FindRunByID ::
  "('s, 'f, 'u, 'p) taskServiceValidator \<Rightarrow> Context \<Rightarrow> ID \<Rightarrow> ID \<Rightarrow> ('s, Call) World
     \<Rightarrow> (error + Run) \<times> ('s, Call) World" where
  "FindRunByID ts ctx taskID runID w =
     (case invoke (CallFindTaskByID taskID) (svcFindTaskByID (TaskService ts) taskID) w of
        (Inl err, w1) \<Rightarrow> (Inl err, w1)
      | (Inr task, w1) \<Rightarrow>
          (case NewPermissionAtID ts taskID ReadAction TasksResourceType (Task.OrganizationID task) of
             Inl err \<Rightarrow> (Inl err, w1)
           | Inr p \<Rightarrow>
               (case validatePermission ctx p of
                  Some err \<Rightarrow> (Inl err, w1)
                | None \<Rightarrow>
                    invoke (CallFindRunByID taskID runID)
                      (svcFindRunByID (TaskService ts) taskID runID) w1)))"

definition CancelRun ::
  "('s, 'f, 'u, 'p) taskServiceValidator \<Rightarrow> Context \<Rightarrow> ID \<Rightarrow> ID \<Rightarrow> ('s, Call) World
     \<Rightarrow> error option \<times> ('s, Call) World" where
  "CancelRun ts ctx taskID runID w =
     (case invoke (CallFindTaskByID taskID) (svcFindTaskByID (TaskService ts) taskID) w of
        (Inl err, w1) \<Rightarrow> (Some err, w1)
      | (Inr task, w1) \<Rightarrow>
          (case NewPermissionAtID ts taskID WriteAction TasksResourceType (Task.OrganizationID task) of
             Inl err \<Rightarrow> (Some err, w1)
           | Inr p \<Rightarrow>
               (case validatePermission ctx p of
                  Some err \<Rightarrow> (Some err, w1)
                | None \<Rightarrow>
                    invoke (CallCancelRun taskID runID)
                      (svcCancelRun (TaskService ts) taskID runID) w1)))"

definition RetryRun ::
  "('s, 'f, 'u, 'p) taskServiceValidator \<Rightarrow> Context \<Rightarrow> ID \<Rightarrow> ID \<Rightarrow> ('s, Call) World
     \<Rightarrow> (error + Run) \<times> ('s, Call) World" where
  "RetryRun ts ctx taskID runID w =
     (case invoke (CallFindTaskByID taskID) (svcFindTaskByID (TaskService ts) taskID) w of
        (Inl err, w1) \<Rightarrow> (Inl err, w1)
      | (Inr task, w1) \<Rightarrow>
          (case NewPermissionAtID ts taskID WriteAction TasksResourceType (Task.OrganizationID task) of
             Inl err \<Rightarrow> (Inl err, w1)
           | Inr p \<Rightarrow>
               (case validatePermission ctx p of
                  Some err \<Rightarrow> (Inl err, w1)
                | None \<Rightarrow>
                    invoke (CallRetryRun taskID runID)
                      (svcRetryRun (TaskService ts) taskID runID) w1)))"

definition ForceRun ::
  "('s, 'f, 'u, 'p) taskServiceValidator \<Rightarrow> Context \<Rightarrow> ID \<Rightarrow> int \<Rightarrow> ('s, Call) World
     \<Rightarrow> (error + Run) \<times> ('s, Call) World" where
  "ForceRun ts ctx taskID scheduledFor w =
     (case invoke (CallFindTaskByID taskID) (svcFindTaskByID (TaskService ts) taskID) w of
        (Inl err, w1) \<Rightarrow> (Inl err, w1)
      | (Inr task, w1) \<Rightarrow>
          (case NewPermissionAtID ts taskID WriteAction TasksResourceType (Task.OrganizationID task) of
             Inl err \<Rightarrow> (Inl err, w1)
           | Inr p \<Rightarrow>
               (case validatePermission ctx p of
                  Some err \<Rightarrow> (Inl err, w1)
                | None \<Rightarrow>
                    invoke (CallForceRun taskID scheduledFor)
                      (svcForceRun (TaskService ts) taskID scheduledFor) w1)))"

text \<open>
  The checks the validator's operations rest on, as predicates.  \<open>permitted\<close> says that
  the permission for an action on the task \<open>tid\<close> of organization \<open>org\<close> can be built and
  is allowed to the context's authorizer; \<open>taskReadAllowed\<close> is the per-task read check
  of \<open>FindTasks\<close>; \<open>writePermissionCheck\<close> is the first check of \<open>CreateTask\<close>, with the
  error it ends in, if any.
\<close>

definition permitted ::
  "('s, 'f, 'u, 'p) taskServiceValidator \<Rightarrow> Context \<Rightarrow> ID \<Rightarrow> Action \<Rightarrow> ID \<Rightarrow> bool" where
  "permitted ts ctx tid a org =
     (case NewPermissionAtID ts tid a TasksResourceType org of
        Inl err \<Rightarrow> False
      | Inr perm \<Rightarrow> validatePermission ctx perm = None)"

definition taskReadAllowed :: "('s, 'f, 'u, 'p) taskServiceValidator \<Rightarrow> Context \<Rightarrow> Task \<Rightarrow> bool" where
  "taskReadAllowed ts ctx t = permitted ts ctx (Task.ID t) ReadAction (Task.OrganizationID t)"

definition writePermissionCheck ::
  "('s, 'f, 'u, 'p) taskServiceValidator \<Rightarrow> Context \<Rightarrow> TaskCreate \<Rightarrow> error option" where
  "writePermissionCheck ts ctx t =
     (case NewPermission ts WriteAction TasksResourceType (TaskCreate.OrganizationID t) of
        Inl err \<Rightarrow> Some err
      | Inr p \<Rightarrow> validatePermission ctx p)"

section \<open>Document authorization (document.go)\<close>

datatype Status = Active | Inactive

record Authorization =
  Status :: Status
  UserID :: ID
  Permissions :: "Permission list"

text \<open>
  Modelled from the spec: the method \<open>IsActive\<close> of an authorization is declared
  elsewhere in the platform package; the specification gives a token-based authorization
  an active or inactive status.
\<close>

definition IsActive :: "Authorization \<Rightarrow> bool" where
  "IsActive a = (Status a = Active)"

text \<open>
  The functions of this file switch on the concrete type of their authorizer: a token
  (\<open>*Authorization\<close>) or any other kind, of which only \<open>GetUserID\<close> is used.
\<close>

datatype DocumentAuthorizer =
    TokenAuthorizer Authorization
  | OtherAuthorizer (GetUserID: ID)

text \<open>
  The document index.  Its lookups read the index, \<open>AddDocumentOwner\<close> changes it; every
  call is recorded.
\<close>

datatype IndexCall =
    CallAddDocumentOwner ID string ID
  | CallGetAccessorsDocuments string ID
  | CallGetDocumentsAccessors ID
  | CallUsersOrgs ID
  | CallIsOrgAccessor ID ID
  | CallFindOrganizationByName string

record 'i DocumentIndex =
  AddDocumentOwner :: "ID \<Rightarrow> string \<Rightarrow> ID \<Rightarrow> 'i \<Rightarrow> error option \<times> 'i"
  GetAccessorsDocuments :: "string \<Rightarrow> ID \<Rightarrow> 'i \<Rightarrow> error + ID list"
  GetDocumentsAccessors :: "ID \<Rightarrow> 'i \<Rightarrow> error + ID list"
  UsersOrgs :: "ID \<Rightarrow> 'i \<Rightarrow> error + ID list"
  IsOrgAccessor :: "ID \<Rightarrow> ID \<Rightarrow> 'i \<Rightarrow> error option"
  FindOrganizationByName :: "string \<Rightarrow> 'i \<Rightarrow> error + ID"

text \<open>
  \<open>orgs := map[ID]bool{}\<close> filled from the accessors of a document: a key that was never
  set reads as false.
\<close>

fun markOrgs :: "ID list \<Rightarrow> (ID \<Rightarrow> bool) \<Rightarrow> (ID \<Rightarrow> bool)" where
  "markOrgs [] orgs = orgs"
| "markOrgs (oid # oids) orgs = markOrgs oids (orgs(oid := True))"

text \<open>The loop over the permissions of the token in \<open>TokenAuthorized\<close>.\<close>

fun TokenAuthorized_loop :: "ID \<Rightarrow> (ID \<Rightarrow> bool) \<Rightarrow> Permission list \<Rightarrow> error option" where
  "TokenAuthorized_loop docID orgs [] =
     Some (PlatformError EUnauthorized ''authorization cannot access document'' None)"
| "TokenAuthorized_loop docID orgs (p # ps) =
     (if Action p = ReadAction then TokenAuthorized_loop docID orgs ps
      else if Type (Resource p) = DocumentsResourceType \<and> Resource.ID (Resource p) \<noteq> None
              \<and> the (Resource.ID (Resource p)) = docID then None
      else if Type (Resource p) = DocumentsResourceType \<and> Resource.ID (Resource p) = None
              \<and> OrgID (Resource p) = None then None
      else if Type (Resource p) = DocumentsResourceType \<and> OrgID (Resource p) \<noteq> None
              \<and> orgs (the (OrgID (Resource p))) then None
      else TokenAuthorized_loop docID orgs ps)"

definition TokenAuthorized ::
  "Authorization \<Rightarrow> ID \<Rightarrow> 'i DocumentIndex \<Rightarrow> ('i, IndexCall) World
     \<Rightarrow> error option \<times> ('i, IndexCall) World" where
  "TokenAuthorized a docID idx w =
     (if \<not> IsActive a
      then (Some (PlatformError EUnauthorized ''authorizer cannot access document'' None), w)
      else
        (case query (CallGetDocumentsAccessors docID) (GetDocumentsAccessors idx docID) w of
           (Inl err, w1) \<Rightarrow> (Some err, w1)
         | (Inr oids, w1) \<Rightarrow>
             (TokenAuthorized_loop docID (markOrgs oids (\<lambda>oid. False)) (Permissions a), w1)))"

text \<open>The loop over the accessors of the document in \<open>Authorized\<close> and \<open>AuthorizedWhereID\<close>.\<close>

fun anyOrgAccessor ::
  "'i DocumentIndex \<Rightarrow> ID \<Rightarrow> ID list \<Rightarrow> ('i, IndexCall) World \<Rightarrow> bool \<times> ('i, IndexCall) World" where
  "anyOrgAccessor idx userID [] w = (False, w)"
| "anyOrgAccessor idx userID (oid # oids) w =
     (case query (CallIsOrgAccessor userID oid) (IsOrgAccessor idx userID oid) w of
        (None, w1) \<Rightarrow> (True, w1)
      | (Some err, w1) \<Rightarrow> anyOrgAccessor idx userID oids w1)"

definition Authorized ::
  "DocumentAuthorizer \<Rightarrow> ID \<Rightarrow> 'i DocumentIndex \<Rightarrow> ('i, IndexCall) World
     \<Rightarrow> error option \<times> ('i, IndexCall) World" where
  "Authorized a docID idx w =
     (case a of
        TokenAuthorizer t \<Rightarrow> TokenAuthorized t docID idx w
      | OtherAuthorizer userID \<Rightarrow>
          (case query (CallGetDocumentsAccessors docID) (GetDocumentsAccessors idx docID) w of
             (Inl err, w1) \<Rightarrow> (Some err, w1)
           | (Inr oids, w1) \<Rightarrow>
               (case anyOrgAccessor idx userID oids w1 of
                  (True, w2) \<Rightarrow> (None, w2)
                | (False, w2) \<Rightarrow>
                    (Some (PlatformError EUnauthorized ''authorizer cannot access document'' None), w2))))"

text \<open>
  \<open>TokenAuthorizedWithOrg\<close> asks the token's own \<open>Allowed\<close>, which is declared
  elsewhere in the platform package: it is the parameter \<open>allowed\<close>.
\<close>

definition TokenAuthorizedWithOrg ::
  "(Authorization \<Rightarrow> Permission \<Rightarrow> bool) \<Rightarrow> Authorization \<Rightarrow> string \<Rightarrow> ID \<Rightarrow> 'i DocumentIndex
     \<Rightarrow> ('i, IndexCall) World \<Rightarrow> error option \<times> ('i, IndexCall) World" where
  "TokenAuthorizedWithOrg allowed a org docID idx w =
     (if \<not> IsActive a
      then (Some (PlatformError EUnauthorized ''authorization cannot add org as document owner'' None), w)
      else
        (case query (CallFindOrganizationByName org) (FindOrganizationByName idx org) w of
           (Inl err, w1) \<Rightarrow> (Some err, w1)
         | (Inr oid, w1) \<Rightarrow>
             (let p = \<lparr>Action = WriteAction,
                       Resource = \<lparr>Type = DocumentsResourceType, Resource.ID = None, OrgID = Some oid\<rparr>\<rparr>
              in if \<not> allowed a p
                 then (Some (PlatformError EUnauthorized
                         ''authorization cannot add org as document owner'' None), w1)
                 else invoke (CallAddDocumentOwner docID ''org'' oid)
                        (AddDocumentOwner idx docID ''org'' oid) w1)))"

definition TokenAuthorizedWhereOrg ::
  "(Authorization \<Rightarrow> Permission \<Rightarrow> bool) \<Rightarrow> Authorization \<Rightarrow> string \<Rightarrow> 'i DocumentIndex
     \<Rightarrow> ('i, IndexCall) World \<Rightarrow> (error + ID list) \<times> ('i, IndexCall) World" where
  "TokenAuthorizedWhereOrg allowed a org idx w =
     (case query (CallFindOrganizationByName org) (FindOrganizationByName idx org) w of
        (Inl err, w1) \<Rightarrow> (Inl err, w1)
      | (Inr oid, w1) \<Rightarrow>
          (let p = \<lparr>Action = ReadAction,
                    Resource = \<lparr>Type = OrgsResourceType, Resource.ID = None, OrgID = Some oid\<rparr>\<rparr>
           in if \<not> allowed a p
              then (Inl (PlatformError EUnauthorized ''authorizer cannot access documents'' None), w1)
              else query (CallGetAccessorsDocuments ''org'' oid) (GetAccessorsDocuments idx ''org'' oid) w1))"

text \<open>
  The find predicates of \<open>AuthorizedWhere\<close> and \<open>TokenAuthorizedWhere\<close> are closures over
  the slice \<open>ids\<close>, declared outside the function they return: a call finds \<open>ids\<close> as the
  call before left it.  So the slice is passed in and handed back, beside the result.
\<close>

fun TokenAuthorizedWhere_loop ::
  "'i DocumentIndex \<Rightarrow> Permission list \<Rightarrow> ID list \<Rightarrow> ('i, IndexCall) World
     \<Rightarrow> (error + ID list) \<times> ID list \<times> ('i, IndexCall) World" where
  "TokenAuthorizedWhere_loop idx [] ids w = (Inr ids, ids, w)"
| "TokenAuthorizedWhere_loop idx (p # ps) ids w =
     (if Type (Resource p) = DocumentsResourceType \<and> OrgID (Resource p) \<noteq> None
      then
        (case query (CallGetAccessorsDocuments ''org'' (the (OrgID (Resource p))))
                (GetAccessorsDocuments idx ''org'' (the (OrgID (Resource p)))) w of
           (Inl err, w1) \<Rightarrow> (Inl err, ids, w1)
         | (Inr oids, w1) \<Rightarrow>
             TokenAuthorizedWhere_loop idx ps
               (if Type (Resource p) = DocumentsResourceType \<and> Resource.ID (Resource p) \<noteq> None
                then (ids @ oids) @ [the (Resource.ID (Resource p))] else ids @ oids) w1)
      else
        TokenAuthorizedWhere_loop idx ps
          (if Type (Resource p) = DocumentsResourceType \<and> Resource.ID (Resource p) \<noteq> None
           then ids @ [the (Resource.ID (Resource p))] else ids) w)"

definition TokenAuthorizedWhere ::
  "Authorization \<Rightarrow> ID list \<Rightarrow> 'i DocumentIndex \<Rightarrow> ('i, IndexCall) World
     \<Rightarrow> (error + ID list) \<times> ID list \<times> ('i, IndexCall) World" where
  "TokenAuthorizedWhere a ids idx w =
     (if \<not> IsActive a
      then (Inl (PlatformError EUnauthorized ''authorizer cannot access documents'' None), ids, w)
      else TokenAuthorizedWhere_loop idx (Permissions a) ids w)"

text \<open>The loop over the organizations of the user in \<open>AuthorizedWhere\<close>.\<close>

fun AuthorizedWhere_loop ::
  "'i DocumentIndex \<Rightarrow> ID list \<Rightarrow> ID list \<Rightarrow> ('i, IndexCall) World
     \<Rightarrow> (error + ID list) \<times> ID list \<times> ('i, IndexCall) World" where
  "AuthorizedWhere_loop idx [] ids w = (Inr ids, ids, w)"
| "AuthorizedWhere_loop idx (orgID # orgIDs) ids w =
     (case query (CallGetAccessorsDocuments ''org'' orgID) (GetAccessorsDocuments idx ''org'' orgID) w of
        (Inl err, w1) \<Rightarrow> (Inl err, ids, w1)
      | (Inr dids, w1) \<Rightarrow> AuthorizedWhere_loop idx orgIDs (ids @ dids) w1)"

definition AuthorizedWhere ::
  "DocumentAuthorizer \<Rightarrow> ID list \<Rightarrow> 'i DocumentIndex \<Rightarrow> ('i, IndexCall) World
     \<Rightarrow> (error + ID list) \<times> ID list \<times> ('i, IndexCall) World" where
  "AuthorizedWhere a ids idx w =
     (case a of
        TokenAuthorizer t \<Rightarrow> TokenAuthorizedWhere t ids idx w
      | OtherAuthorizer userID \<Rightarrow>
          (case query (CallGetAccessorsDocuments ''user'' userID)
                  (GetAccessorsDocuments idx ''user'' userID) w of
             (Inl err, w1) \<Rightarrow> (Inl err, ids, w1)
           | (Inr dids, w1) \<Rightarrow>
               (case query (CallUsersOrgs userID) (UsersOrgs idx userID) w1 of
                  (Inl err, w2) \<Rightarrow> (Inl err, ids @ dids, w2)
                | (Inr orgIDs, w2) \<Rightarrow> AuthorizedWhere_loop idx orgIDs (ids @ dids) w2)))"

text \<open>The loop over the permissions of the token in \<open>TokenAuthorizedWhereID\<close>.\<close>

fun TokenAuthorizedWhereID_loop :: "ID \<Rightarrow> (ID \<Rightarrow> bool) \<Rightarrow> Permission list \<Rightarrow> error + ID list" where
  "TokenAuthorizedWhereID_loop docID orgs [] =
     Inl (PlatformError EUnauthorized ''authorization cannot access document'' None)"
| "TokenAuthorizedWhereID_loop docID orgs (p # ps) =
     (if Type (Resource p) = DocumentsResourceType \<and> Resource.ID (Resource p) \<noteq> None
         \<and> docID = the (Resource.ID (Resource p)) then Inr [docID]
      else if Type (Resource p) = DocumentsResourceType \<and> Resource.ID (Resource p) = None
              \<and> OrgID (Resource p) = None then Inr [docID]
      else if Type (Resource p) = DocumentsResourceType \<and> OrgID (Resource p) \<noteq> None
              \<and> orgs (the (OrgID (Resource p))) then Inr [docID]
      else TokenAuthorizedWhereID_loop docID orgs ps)"

definition TokenAuthorizedWhereID ::
  "Authorization \<Rightarrow> ID \<Rightarrow> 'i DocumentIndex \<Rightarrow> ('i, IndexCall) World
     \<Rightarrow> (error + ID list) \<times> ('i, IndexCall) World" where
  "TokenAuthorizedWhereID a docID idx w =
     (if \<not> IsActive a
      then (Inl (PlatformError EUnauthorized ''authorizer cannot access documents'' None), w)
      else
        (case query (CallGetDocumentsAccessors docID) (GetDocumentsAccessors idx docID) w of
           (Inl err, w1) \<Rightarrow> (Inl err, w1)
         | (Inr oids, w1) \<Rightarrow>
             (TokenAuthorizedWhereID_loop docID (markOrgs oids (\<lambda>oid. False)) (Permissions a), w1)))"

text \<open>
  The condition of the create predicate in the words of the specification: some
  permission of the token is not a read permission, is on the documents resource type,
  and names the document, or names neither a document nor an organization, or names an
  organization among the owners of the document.
\<close>

definition createMatch :: "ID \<Rightarrow> ID list \<Rightarrow> Permission \<Rightarrow> bool" where
  "createMatch docID docOwners p =
     (Action p \<noteq> ReadAction \<and> Type (Resource p) = DocumentsResourceType
      \<and> (Resource.ID (Resource p) = Some docID
         \<or> (Resource.ID (Resource p) = None \<and> OrgID (Resource p) = None)
         \<or> (\<exists>oid \<in> set docOwners. OrgID (Resource p) = Some oid)))"

definition holdsCreatePermission :: "Permission list \<Rightarrow> ID \<Rightarrow> ID list \<Rightarrow> bool" where
  "holdsCreatePermission ps docID docOwners = (\<exists>p \<in> set ps. createMatch docID docOwners p)"

text \<open>
  What the find predicates collect: the documents an organization owns according to the
  index (none when the lookup fails), and what one permission of a token contributes.
\<close>

definition orgDocuments :: "'i DocumentIndex \<Rightarrow> 'i \<Rightarrow> ID \<Rightarrow> ID list" where
  "orgDocuments idx s orgID =
     (case GetAccessorsDocuments idx ''org'' orgID s of Inl err \<Rightarrow> [] | Inr dids \<Rightarrow> dids)"

definition permissionDocuments :: "'i DocumentIndex \<Rightarrow> 'i \<Rightarrow> Permission \<Rightarrow> ID list" where
  "permissionDocuments idx s p =
     (if Type (Resource p) = DocumentsResourceType
      then (case OrgID (Resource p) of None \<Rightarrow> [] | Some orgID \<Rightarrow> orgDocuments idx s orgID)
           @ (case Resource.ID (Resource p) of None \<Rightarrow> [] | Some docID \<Rightarrow> [docID])
      else [])"

definition lookupSucceeds :: "'i DocumentIndex \<Rightarrow> 'i \<Rightarrow> ID \<Rightarrow> bool" where
  "lookupSucceeds idx s orgID =
     (case GetAccessorsDocuments idx ''org'' orgID s of Inl err \<Rightarrow> False | Inr dids \<Rightarrow> True)"

section \<open>The query service bridges (query/bridges.go, query/logging.go)\<close>

text \<open>
  A call of a collaborator either returns or panics.  The value of a panic is nil
  (\<open>panic(nil)\<close>) or a value, kept as the text that \<open>%v\<close> prints.  The module is built
  with the Go semantics in which \<open>recover()\<close> ends a panic under way and returns its
  value as it is, so that it returns nil after \<open>panic(nil)\<close> as it does when nothing
  panics.
\<close>

datatype panic = PanicNil | PanicValue string

datatype 'a outcome = Returns 'a | Panics panic

text \<open>
  The statistics of a query.  \<open>Metadata\<close> is a Go map: \<open>None\<close> is the nil map, to which
  nothing can be added.
\<close>

record Statistics =
  TotalDuration :: int
  Metadata :: "(string \<times> int) list option"

text \<open>The zero value of \<open>flux.Statistics\<close>, as \<open>var stats flux.Statistics\<close> has it.\<close>

definition zeroStatistics :: Statistics where
  "zeroStatistics = \<lparr>TotalDuration = 0, Metadata = None\<rparr>"

record Request =
  OrganizationID :: ID
  Compiler :: string

record ProxyRequest =
  Request :: Request
  Dialect :: string

text \<open>
  The destination of the encoded results: whether the \<open>io.Writer\<close> is an
  \<open>http.ResponseWriter\<close> (the type assertion of the proxy bridge), its header and the
  bytes written so far.
\<close>

record ResponseWriter =
  isResponseWriter :: bool
  Header :: "string \<rightharpoonup> string"
  Body :: string

definition setHeader :: "string \<Rightarrow> string \<Rightarrow> ResponseWriter \<Rightarrow> ResponseWriter" where
  "setHeader k v w = w\<lparr>Header := (Header w)(k \<mapsto> v)\<rparr>"

text \<open>The record the logging bridge hands to its logger (\<open>query.Log\<close>).\<close>

record Log =
  OrganizationID :: ID
  ProxyRequest :: ProxyRequest
  ResponseSize :: int
  Time :: nat
  Statistics :: Statistics
  Error :: "error option"

record QueryFinishedEvent =
  OrganizationID :: ID
  Statistics :: Statistics
  ResponseByteCount :: int
  Err :: "error option"

text \<open>
  What a call does to its collaborators, in order: the query, the encoding, the calls of
  the result iterator's \<open>Err\<close>, \<open>Release\<close> and \<open>Statistics\<close>, the record given to the
  logger, and for the HTTP handler the error response, the line logged and the event
  given to the finish handler.
\<close>

datatype Event =
    EvQuery
  | EvEncode
  | EvErr
  | EvRelease
  | EvStatistics
  | EvLog Log
  | EvEncodeError error
  | EvLoggerInfo string error
  | EvOnFinished QueryFinishedEvent

text \<open>
  The collaborators of one call, over the state \<open>'it\<close> of the result iterator: the
  wrapped query service, the encoder of the request's dialect (it takes the writer and
  the iterator and leaves both changed, whether it returns or panics), the iterator's
  own methods, \<open>json.Marshal\<close>, the clock, and \<open>tracing.LogError\<close>, which records an
  error on the span and hands an error back.
\<close>

record 'it QueryEnv =
  svcQuery :: "Request \<Rightarrow> (error + 'it) outcome"
  encEncode :: "ResponseWriter \<Rightarrow> 'it \<Rightarrow> ResponseWriter \<times> 'it \<times> (int \<times> error option) outcome"
  itErr :: "'it \<Rightarrow> error option outcome"
  itRelease :: "'it \<Rightarrow> 'it outcome"
  itStatistics :: "'it \<Rightarrow> Statistics outcome"
  jsonMarshal :: "Statistics \<Rightarrow> error + string"
  timeNow :: nat
  traceLogError :: "error \<Rightarrow> error"

subsection \<open>ProxyQueryServiceBridge.Query\<close>

text \<open>
  The statements between \<open>defer results.Release()\<close> and the end of the function: the
  result or the panic they end in, the writer, the iterator and the events.  The error
  of \<open>json.Marshal\<close> is dropped, which leaves the empty string.
\<close>

definition ProxyQueryServiceBridge_Query_body ::
  "'it QueryEnv \<Rightarrow> ResponseWriter \<Rightarrow> 'it
     \<Rightarrow> (int \<times> error option) outcome \<times> ResponseWriter \<times> 'it \<times> Event list" where
  "ProxyQueryServiceBridge_Query_body env w results =
     (let w1 = (if isResponseWriter w then setHeader ''Trailer'' ''Influx-Query-Statistics'' w else w)
      in case encEncode env w1 results of
           (w2, it1, Panics r) \<Rightarrow> (Panics r, w2, it1, [EvEncode])
         | (w2, it1, Returns (n, Some err)) \<Rightarrow>
             (Returns (n, Some (traceLogError env err)), w2, it1, [EvEncode])
         | (w2, it1, Returns (n, None)) \<Rightarrow>
             (if isResponseWriter w
              then (case itStatistics env it1 of
                      Panics r \<Rightarrow> (Panics r, w2, it1, [EvEncode, EvStatistics])
                    | Returns st \<Rightarrow>
                        (let data = (case jsonMarshal env st of Inl e \<Rightarrow> [] | Inr d \<Rightarrow> d)
                         in (Returns (n, None), setHeader ''Influx-Query-Statistics'' data w2, it1,
                             [EvEncode, EvStatistics])))
              else (Returns (n, None), w2, it1, [EvEncode])))"

text \<open>
  The whole function: the query, the body, and then the deferred \<open>results.Release()\<close>,
  which runs when the body has returned or panicked; a panic of \<open>Release\<close> itself is
  the panic the caller sees.
\<close>

definition ProxyQueryServiceBridge_Query ::
  "'it QueryEnv \<Rightarrow> ResponseWriter \<Rightarrow> ProxyRequest
     \<Rightarrow> (int \<times> error option) outcome \<times> ResponseWriter \<times> Event list" where
  "ProxyQueryServiceBridge_Query env w req =
     (case svcQuery env (Request req) of
        Panics r \<Rightarrow> (Panics r, w, [EvQuery])
      | Returns (Inl err) \<Rightarrow> (Returns (0, Some (traceLogError env err)), w, [EvQuery])
      | Returns (Inr results) \<Rightarrow>
          (case ProxyQueryServiceBridge_Query_body env w results of
             (res, w', it', evs) \<Rightarrow>
               (case itRelease env it' of
                  Panics r \<Rightarrow> (Panics r, w', EvQuery # evs @ [EvRelease])
                | Returns it'' \<Rightarrow> (res, w', EvQuery # evs @ [EvRelease]))))"

subsection \<open>LoggingServiceBridge.Query\<close>

text \<open>
  The variables the deferred functions of the logging bridge read and write: the named
  results \<open>n\<close> and \<open>err\<close>, the variable \<open>stats\<close>, and whether the function is panicking.
\<close>

record Frame =
  res_n :: int
  res_err :: "error option"
  var_stats :: Statistics
  panicking :: "panic option"
  writer :: ResponseWriter
  trace :: "Event list"

text \<open>
  The body, up to its return or its panic.  The second component is the iterator when
  the query has returned one, that is, when the deferred release is registered.  A
  panicking call assigns nothing: \<open>n\<close> and \<open>err\<close> stay as the statements before left
  them.
\<close>

definition LoggingServiceBridge_Query_body ::
  "'it QueryEnv \<Rightarrow> ResponseWriter \<Rightarrow> ProxyRequest \<Rightarrow> Frame \<times> 'it option" where
  "LoggingServiceBridge_Query_body env w req =
     (let fr = \<lparr>res_n = 0, res_err = None, var_stats = zeroStatistics, panicking = None,
                 writer = w, trace = [EvQuery]\<rparr>
      in case svcQuery env (Request req) of
           Panics r \<Rightarrow> (fr\<lparr>panicking := Some r\<rparr>, None)
         | Returns (Inl e) \<Rightarrow> (fr\<lparr>res_n := 0, res_err := Some (traceLogError env e)\<rparr>, None)
         | Returns (Inr results) \<Rightarrow>
             (case encEncode env w results of
                (w1, it1, Panics r) \<Rightarrow>
                  (fr\<lparr>panicking := Some r, writer := w1, trace := [EvQuery, EvEncode]\<rparr>, Some it1)
              | (w1, it1, Returns (n, Some e)) \<Rightarrow>
                  (fr\<lparr>res_n := n, res_err := Some (traceLogError env e), writer := w1,
                      trace := [EvQuery, EvEncode]\<rparr>, Some it1)
              | (w1, it1, Returns (n, None)) \<Rightarrow>
                  (case itErr env it1 of
                     Panics r \<Rightarrow>
                       (fr\<lparr>res_n := n, panicking := Some r, writer := w1,
                           trace := [EvQuery, EvEncode, EvErr]\<rparr>, Some it1)
                   | Returns (Some e) \<Rightarrow>
                       (fr\<lparr>res_n := 0, res_err := Some (traceLogError env e), writer := w1,
                           trace := [EvQuery, EvEncode, EvErr]\<rparr>, Some it1)
                   | Returns None \<Rightarrow>
                       (fr\<lparr>res_n := n, writer := w1, trace := [EvQuery, EvEncode, EvErr]\<rparr>,
                        Some it1))))"

text \<open>
  The deferred function registered last, which runs first: \<open>results.Release()\<close>, then
  \<open>stats = results.Statistics()\<close>.  If one of them panics, that panic replaces the one
  under way and the assignment does not happen.
\<close>

definition deferredRelease :: "'it QueryEnv \<Rightarrow> 'it \<Rightarrow> Frame \<Rightarrow> Frame" where
  "deferredRelease env it fr =
     (case itRelease env it of
        Panics r \<Rightarrow> fr\<lparr>panicking := Some r, trace := trace fr @ [EvRelease]\<rparr>
      | Returns it' \<Rightarrow>
          (case itStatistics env it' of
             Panics r \<Rightarrow> fr\<lparr>panicking := Some r, trace := trace fr @ [EvRelease, EvStatistics]\<rparr>
           | Returns st \<Rightarrow> fr\<lparr>var_stats := st, trace := trace fr @ [EvRelease, EvStatistics]\<rparr>))"

text \<open>
  The deferred function registered first, which runs last: \<open>r := recover()\<close> ends a
  panic under way, and \<open>err\<close> is set from \<open>r\<close> only if \<open>r\<close> is not nil: after
  \<open>panic(nil)\<close>, as when nothing panicked, \<open>err\<close> stays as it was.  Then the record is
  built from \<open>n\<close>, \<open>stats\<close> and \<open>err\<close> and given to the logger.
\<close>

definition recoverInto :: "panic option \<Rightarrow> error option \<Rightarrow> error option" where
  "recoverInto r err =
     (case r of
        Some (PanicValue v) \<Rightarrow> Some (Errorf (''panic: '' @ v))
      | Some PanicNil \<Rightarrow> err
      | None \<Rightarrow> err)"

definition deferredLog :: "'it QueryEnv \<Rightarrow> ProxyRequest \<Rightarrow> Frame \<Rightarrow> Frame" where
  "deferredLog env req fr =
     (let err = recoverInto (panicking fr) (res_err fr);
          log = \<lparr>Log.OrganizationID = Request.OrganizationID (Request req),
                 ProxyRequest = req,
                 ResponseSize = res_n fr,
                 Time = timeNow env,
                 Log.Statistics = var_stats fr,
                 Error = err\<rparr>
      in fr\<lparr>res_err := err, panicking := None, trace := trace fr @ [EvLog log]\<rparr>)"

text \<open>
  What the caller gets: the named results, or the panic if the function is still
  panicking when its deferred functions have run.
\<close>

definition finish :: "Frame \<Rightarrow> (int \<times> error option) outcome" where
  "finish fr = (case panicking fr of Some r \<Rightarrow> Panics r | None \<Rightarrow> Returns (res_n fr, res_err fr))"

text \<open>
  The function runs its body, then the deferred release if the body got as far as
  registering it, then the deferred logging.
\<close>

definition LoggingServiceBridge_Query_released :: "'it QueryEnv \<Rightarrow> ResponseWriter \<Rightarrow> ProxyRequest \<Rightarrow> Frame" where
  "LoggingServiceBridge_Query_released env w req =
     (case LoggingServiceBridge_Query_body env w req of
        (fr, None) \<Rightarrow> fr
      | (fr, Some it) \<Rightarrow> deferredRelease env it fr)"

definition LoggingServiceBridge_Query ::
  "'it QueryEnv \<Rightarrow> ResponseWriter \<Rightarrow> ProxyRequest
     \<Rightarrow> (int \<times> error option) outcome \<times> ResponseWriter \<times> Event list" where
  "LoggingServiceBridge_Query env w req =
     (let fr = deferredLog env req (LoggingServiceBridge_Query_released env w req)
      in (finish fr, writer fr, trace fr))"

text \<open>The records a call gave to the logger, in order.\<close>

fun logged :: "Event list \<Rightarrow> Log list" where
  "logged [] = []"
| "logged (EvLog l # evs) = l # logged evs"
| "logged (ev # evs) = logged evs"

section \<open>The HTTP query handler (http/query_service.go)\<close>

text \<open>
  The handler's collaborators: those of a query, the decoding of the request body, the
  CSV dialect's \<open>SetHeaders\<close>, \<open>EncodeError\<close> (which writes the structured error
  response to the client), and whether a finish handler is installed.
\<close>

record 'it HandlerEnv = "'it QueryEnv" +
  decodeRequest :: "error + Request"
  csvSetHeaders :: "ResponseWriter \<Rightarrow> ResponseWriter"
  EncodeError :: "error \<Rightarrow> ResponseWriter \<Rightarrow> ResponseWriter"
  hasOnFinishedHandler :: bool

text \<open>
  \<open>encw.Count()\<close>: the bytes that went through the counting writer, that is, what the
  encoding added to the body.
\<close>

definition countWritten :: "ResponseWriter \<Rightarrow> ResponseWriter \<Rightarrow> int" where
  "countWritten before after = int (length (Body after)) - int (length (Body before))"

text \<open>
  The end of the handler, from \<open>stats.Metadata.Add\<close> on: adding to the metadata, which
  panics when the map is nil, then the event for the finish handler, if one is installed,
  and the statistics trailer, unless the statistics cannot be marshalled.  The first
  component is the panic, if any.
\<close>

definition handlePostQuery_finish ::
  "'it HandlerEnv \<Rightarrow> Request \<Rightarrow> ResponseWriter \<Rightarrow> 'it \<Rightarrow> Statistics \<Rightarrow> int
     \<Rightarrow> panic option \<times> ResponseWriter \<times> Event list" where
  "handlePostQuery_finish env req w results st count =
     (case Metadata st of
        None \<Rightarrow> (Some (PanicValue ''assignment to entry in nil map''), w, [])
      | Some md \<Rightarrow>
          (let stats = st\<lparr>Metadata := Some (md @ [(''influxdb/response-bytes'', count)])\<rparr>;
               trailer = (case jsonMarshal env stats of
                            Inl e \<Rightarrow> (w, [EvLoggerInfo ''Failed to encode statistics'' e])
                          | Inr data \<Rightarrow> (setHeader ''Influx-Query-Statistics'' data w, []))
           in if hasOnFinishedHandler env
              then (case itErr env results of
                      Panics r \<Rightarrow> (Some r, w, [EvErr])
                    | Returns e \<Rightarrow>
                        (None, fst trailer,
                         [EvErr,
                          EvOnFinished \<lparr>QueryFinishedEvent.OrganizationID = Request.OrganizationID req,
                                        QueryFinishedEvent.Statistics = stats,
                                        ResponseByteCount = count,
                                        Err = e\<rparr>] @ snd trailer))
              else (None, fst trailer, snd trailer)))"

text \<open>
  The statements between \<open>defer results.Release()\<close> and the end of the handler.  When
  the encoder returns an error, the handler looks at the count the encoder returned with
  it: at zero it calls \<open>EncodeError\<close>, otherwise it logs a line.
\<close>

definition handlePostQuery_body ::
  "'it HandlerEnv \<Rightarrow> Request \<Rightarrow> ResponseWriter \<Rightarrow> 'it
     \<Rightarrow> panic option \<times> ResponseWriter \<times> 'it \<times> Event list" where
  "handlePostQuery_body env req w results =
     (let w1 = setHeader ''Trailer'' ''Influx-Query-Statistics'' w;
          w2 = csvSetHeaders env w1
      in case encEncode env w2 results of
           (w3, it1, Panics r) \<Rightarrow> (Some r, w3, it1, [EvEncode])
         | (w3, it1, Returns (n, err)) \<Rightarrow>
             (let encoded =
                    (case err of
                       None \<Rightarrow> (w3, [EvEncode])
                     | Some e \<Rightarrow>
                         if n = 0 then (EncodeError env e w3, [EvEncode, EvEncodeError e])
                         else (w3, [EvEncode, EvLoggerInfo ''Failed to encode client response'' e]));
                  w4 = fst encoded; evs = snd encoded
              in case itRelease env it1 of
                   Panics r \<Rightarrow> (Some r, w4, it1, evs @ [EvRelease])
                 | Returns it2 \<Rightarrow>
                     (case itStatistics env it2 of
                        Panics r \<Rightarrow> (Some r, w4, it2, evs @ [EvRelease, EvStatistics])
                      | Returns st \<Rightarrow>
                          (case handlePostQuery_finish env req w4 it2 st (countWritten w2 w3) of
                             (p, w5, evs') \<Rightarrow> (p, w5, it2, evs @ [EvRelease, EvStatistics] @ evs')))))"

definition handlePostQuery ::
  "'it HandlerEnv \<Rightarrow> ResponseWriter \<Rightarrow> unit outcome \<times> ResponseWriter \<times> Event list" where
  "handlePostQuery env w =
     (case decodeRequest env of
        Inl err \<Rightarrow> (Returns (), EncodeError env err w, [EvEncodeError err])
      | Inr req \<Rightarrow>
          (case svcQuery env req of
             Panics r \<Rightarrow> (Panics r, w, [EvQuery])
           | Returns (Inl err) \<Rightarrow> (Returns (), EncodeError env err w, [EvQuery, EvEncodeError err])
           | Returns (Inr results) \<Rightarrow>
               (case handlePostQuery_body env req w results of
                  (p, w', it', evs) \<Rightarrow>
                    (case itRelease env it' of
                       Panics r \<Rightarrow> (Panics r, w', EvQuery # evs @ [EvRelease])
                     | Returns it'' \<Rightarrow>
                         ((case p of Some r \<Rightarrow> Panics r | None \<Rightarrow> Returns ()),
                          w', EvQuery # evs @ [EvRelease])))))"

text \<open>The error responses a call wrote and the lines it logged, in order.\<close>

fun errorResponses :: "Event list \<Rightarrow> error list" where
  "errorResponses [] = []"
| "errorResponses (EvEncodeError e # evs) = e # errorResponses evs"
| "errorResponses (ev # evs) = errorResponses evs"

fun loggedLines :: "Event list \<Rightarrow> (string \<times> error) list" where
  "loggedLines [] = []"
| "loggedLines (EvLoggerInfo msg e # evs) = (msg, e) # loggedLines evs"
| "loggedLines (ev # evs) = loggedLines evs"

section \<open>Concrete instances\<close>

subsection \<open>A task service over a list of tasks\<close>

text \<open>
  The instances below are the inputs at which the theorems are evaluated.  The store of
  the example task service is the list of its tasks; permissions are built the way the
  constructors' names say, for an organization alone or for an identifier in an
  organization, and the identifier 0 is invalid.
\<close>

definition exNewPermission :: "Action \<Rightarrow> ResourceType \<Rightarrow> ID \<Rightarrow> error + Permission" where
  "exNewPermission a rt orgID =
     (if orgID = 0 then Inl (PlatformError EInvalid ''invalid id'' None)
      else Inr \<lparr>Action = a, Resource = \<lparr>Type = rt, Resource.ID = None, OrgID = Some orgID\<rparr>\<rparr>)"

definition exNewPermissionAtID :: "ID \<Rightarrow> Action \<Rightarrow> ResourceType \<Rightarrow> ID \<Rightarrow> error + Permission" where
  "exNewPermissionAtID i a rt orgID =
     (if orgID = 0 \<or> i = 0 then Inl (PlatformError EInvalid ''invalid id'' None)
      else Inr \<lparr>Action = a, Resource = \<lparr>Type = rt, Resource.ID = Some i, OrgID = Some orgID\<rparr>\<rparr>)"

definition exFindTask :: "ID \<Rightarrow> Task list \<Rightarrow> (error + Task) \<times> Task list" where
  "exFindTask tid s =
     (case find (\<lambda>t. Task.ID t = tid) s of
        None \<Rightarrow> (Inl (PlatformError ENotFound ''task not found'' None), s)
      | Some t \<Rightarrow> (Inr t, s))"

definition exRun :: "ID \<Rightarrow> ID \<Rightarrow> Run" where
  "exRun tid rid = \<lparr>Run.ID = rid, TaskID = tid\<rparr>"

definition exService :: "(Task list, unit, unit) TaskService" where
  "exService =
     \<lparr>svcFindTaskByID = exFindTask,
      svcFindTasks = (\<lambda>f s. ((s, int (length s), None), s)),
      svcCreateTask = (\<lambda>t s.
         (let task = \<lparr>Task.ID = Suc (length s), Task.OrganizationID = TaskCreate.OrganizationID t,
                       Task.Flux = TaskCreate.Flux t\<rparr>
          in (Inr task, s @ [task]))),
      svcUpdateTask = (\<lambda>tid u s. exFindTask tid s),
      svcDeleteTask = (\<lambda>tid s. (None, filter (\<lambda>t. Task.ID t \<noteq> tid) s)),
      svcFindLogs = (\<lambda>f s. (([''log''], 1, None), s)),
      svcFindRuns = (\<lambda>f s. (([exRun (RunFilter.Task f) 1], 1, None), s)),
      svcFindRunByID = (\<lambda>tid rid s. (Inr (exRun tid rid), s)),
      svcCancelRun = (\<lambda>tid rid s. (None, s)),
      svcRetryRun = (\<lambda>tid rid s. (Inr (exRun tid rid), s)),
      svcForceRun = (\<lambda>tid at s. (Inr (exRun tid 1), s))\<rparr>"

text \<open>
  The example compiler reads a script as the list of the organizations whose buckets it
  touches (one character each); the example pre-authorizer asks for read access to a
  bucket of each.
\<close>

definition exPreAuthorize :: "ID list \<Rightarrow> Authorizer \<Rightarrow> error option" where
  "exPreAuthorize orgs auth =
     (if list_all (\<lambda>org. Allowed auth
            \<lparr>Action = ReadAction,
              Resource = \<lparr>Type = BucketsResourceType, Resource.ID = None, OrgID = Some org\<rparr>\<rparr>) orgs
      then None else Some (Errorf ''no read permission for bucket''))"

definition exValidator :: "(Task list, unit, unit, ID list) taskServiceValidator" where
  "exValidator =
     \<lparr>TaskService = exService,
      PreAuthorize = exPreAuthorize,
      Compile = (\<lambda>script. if script = [] then Inl (Errorf ''empty script'')
                           else Inr (map (\<lambda>c. of_char c) script)),
      NewPermission = exNewPermission,
      NewPermissionAtID = exNewPermissionAtID\<rparr>"

definition exTask :: "ID \<Rightarrow> ID \<Rightarrow> Task" where
  "exTask tid org = \<lparr>Task.ID = tid, Task.OrganizationID = org, Task.Flux = [char_of (1::nat)]\<rparr>"

definition exWorld :: "(Task list, Call) World" where
  "exWorld = \<lparr>store = [exTask 1 1, exTask 2 2, exTask 3 1, exTask 4 2, exTask 5 1], calls = []\<rparr>"

text \<open>
  Three principals: one that may do anything in organization 1, one that may only read
  there, and one that may only write there.
\<close>

definition exCtxOrg1 :: Context where
  "exCtxOrg1 =
     \<lparr>GetAuthorizer = Inr \<lparr>Allowed = (\<lambda>p. OrgID (Resource p) = Some 1), Identifier = 100\<rparr>\<rparr>"

definition exCtxReadOrg1 :: Context where
  "exCtxReadOrg1 =
     \<lparr>GetAuthorizer =
        Inr \<lparr>Allowed = (\<lambda>p. Action p = ReadAction \<and> OrgID (Resource p) = Some 1), Identifier = 101\<rparr>\<rparr>"

definition exCtxWriteOrg1 :: Context where
  "exCtxWriteOrg1 =
     \<lparr>GetAuthorizer =
        Inr \<lparr>Allowed = (\<lambda>p. Action p = WriteAction \<and> OrgID (Resource p) = Some 1), Identifier = 102\<rparr>\<rparr>"

definition exTaskCreate :: "ID \<Rightarrow> ID \<Rightarrow> TaskCreate" where
  "exTaskCreate org bucketOrg = \<lparr>TaskCreate.Flux = [char_of bucketOrg], TaskCreate.OrganizationID = org\<rparr>"

subsection \<open>A document index over ownership lists\<close>

text \<open>
  The example index keeps the ownership relation as triples (owner type, owner,
  document), the membership of users in organizations as pairs, and the names of the
  organizations.  A document without any accessor is unknown to it.
\<close>

record ExIndexState =
  owners :: "(string \<times> ID \<times> ID) list"
  members :: "(ID \<times> ID) list"
  orgNames :: "(string \<times> ID) list"

definition exIndex :: "ExIndexState DocumentIndex" where
  "exIndex =
     \<lparr>AddDocumentOwner = (\<lambda>docID ownerType ownerID s.
         (None, s\<lparr>owners := owners s @ [(ownerType, ownerID, docID)]\<rparr>)),
      GetAccessorsDocuments = (\<lambda>ownerType ownerID s.
         Inr (map (\<lambda>(t, oid, d). d) (filter (\<lambda>(t, oid, d). t = ownerType \<and> oid = ownerID) (owners s)))),
      GetDocumentsAccessors = (\<lambda>docID s.
         (case map (\<lambda>(t, oid, d). oid) (filter (\<lambda>(t, oid, d). d = docID) (owners s)) of
            [] \<Rightarrow> Inl (PlatformError ENotFound ''document not found'' None)
          | oids \<Rightarrow> Inr oids)),
      UsersOrgs = (\<lambda>userID s. Inr (map snd (filter (\<lambda>(u, org). u = userID) (members s)))),
      IsOrgAccessor = (\<lambda>userID orgID s.
         if (userID, orgID) \<in> set (members s) then None
         else Some (PlatformError EUnauthorized ''user is not a member of the organization'' None)),
      FindOrganizationByName = (\<lambda>n s.
         (case map_of (orgNames s) n of
            None \<Rightarrow> Inl (PlatformError ENotFound ''organization not found'' None)
          | Some oid \<Rightarrow> Inr oid))\<rparr>"

text \<open>
  User 1 owns document 10 and belongs to organization 5, which owns documents 10 and 11.
\<close>

definition exIndexWorld :: "(ExIndexState, IndexCall) World" where
  "exIndexWorld =
     \<lparr>store = \<lparr>owners = [(''user'', 1, 10), (''org'', 5, 10), (''org'', 5, 11)],
                members = [(1, 5)],
                orgNames = [(''acme'', 5)]\<rparr>,
      calls = []\<rparr>"

definition documentsPermission :: "Action \<Rightarrow> ID option \<Rightarrow> ID option \<Rightarrow> Permission" where
  "documentsPermission a docID orgID =
     \<lparr>Action = a, Resource = \<lparr>Type = DocumentsResourceType, Resource.ID = docID, OrgID = orgID\<rparr>\<rparr>"

definition exToken :: "Status \<Rightarrow> Permission list \<Rightarrow> Authorization" where
  "exToken st ps = \<lparr>Status = st, UserID = 1, Permissions = ps\<rparr>"

subsection \<open>A result iterator with two states\<close>

text \<open>
  The example iterator is open or released; its statistics are the zero value while it
  is open and its final statistics once it is released.  The example environment is
  given what the query service answers, what the encoder answers and the bytes the
  encoder writes.
\<close>

record ExIterator =
  released :: bool
  finalStatistics :: Statistics
  iterErr :: "error option"

definition exIterator :: "error option \<Rightarrow> ExIterator" where
  "exIterator e =
     \<lparr>released = False, finalStatistics = \<lparr>TotalDuration = 42, Metadata = Some []\<rparr>, iterErr = e\<rparr>"

definition exMarshal :: "Statistics \<Rightarrow> error + string" where
  "exMarshal st = Inr (if TotalDuration st = 0 then ''zero'' else ''final'')"

definition exEnv ::
  "(error + ExIterator) outcome \<Rightarrow> (int \<times> error option) outcome \<Rightarrow> string \<Rightarrow> ExIterator QueryEnv" where
  "exEnv q enc written =
     \<lparr>svcQuery = (\<lambda>req. q),
      encEncode = (\<lambda>w it. (w\<lparr>Body := Body w @ written\<rparr>, it, enc)),
      itErr = (\<lambda>it. Returns (iterErr it)),
      itRelease = (\<lambda>it. Returns (it\<lparr>released := True\<rparr>)),
      itStatistics = (\<lambda>it. Returns (if released it then finalStatistics it else zeroStatistics)),
      jsonMarshal = exMarshal,
      timeNow = 7,
      traceLogError = (\<lambda>e. e)\<rparr>"

definition exHandlerEnv ::
  "(error + ExIterator) outcome \<Rightarrow> (int \<times> error option) outcome \<Rightarrow> string \<Rightarrow> ExIterator HandlerEnv" where
  "exHandlerEnv q enc written =
     \<lparr>svcQuery = (\<lambda>req. q),
      encEncode = (\<lambda>w it. (w\<lparr>Body := Body w @ written\<rparr>, it, enc)),
      itErr = (\<lambda>it. Returns (iterErr it)),
      itRelease = (\<lambda>it. Returns (it\<lparr>released := True\<rparr>)),
      itStatistics = (\<lambda>it. Returns (if released it then finalStatistics it else zeroStatistics)),
      jsonMarshal = exMarshal,
      timeNow = 7,
      traceLogError = (\<lambda>e. e),
      decodeRequest = Inr \<lparr>Request.OrganizationID = 1, Compiler = ''from(bucket)''\<rparr>,
      csvSetHeaders = (\<lambda>w. setHeader ''Content-Type'' ''text/csv'' w),
      EncodeError = (\<lambda>e w. w\<lparr>Body := Body w @ ''{error}''\<rparr>),
      hasOnFinishedHandler = True\<rparr>"

definition exWriter :: ResponseWriter where
  "exWriter = \<lparr>isResponseWriter = True, Header = Map.empty, Body = []\<rparr>"

definition exProxyRequest :: ProxyRequest where
  "exProxyRequest =
     \<lparr>Request = \<lparr>Request.OrganizationID = 1, Compiler = ''from(bucket)''\<rparr>, Dialect = ''csv''\<rparr>"


section \<open>Properties of the task service validator\<close>

lemmas example_validator_defs =
  exValidator_def exService_def exWorld_def exTask_def exTaskCreate_def exFindTask_def
  exRun_def exNewPermission_def exNewPermissionAtID_def exPreAuthorize_def
  exCtxOrg1_def exCtxReadOrg1_def exCtxWriteOrg1_def

lemma made_same [simp]: "made w w = []"
  by (simp add: made_def)

lemma made_invoke:
  "made w (snd (invoke c f w)) = [c]"
  by (simp add: made_def invoke_def split: prod.splits)

lemma FindTasks_loop_filter:
  "FindTasks_loop ts ctx us acc = acc @ filter (taskReadAllowed ts ctx) us"
  by (induction us arbitrary: acc)
    (auto simp: taskReadAllowed_def permitted_def split: sum.splits option.splits)

text \<open>
  C3.  When the wrapped service hands back its unauthenticated list \<open>us\<close> without an
  error, the validator's \<open>FindTasks\<close> has made exactly that one call to the wrapped
  service, returns the tasks of \<open>us\<close> that pass the per-task read-permission check, in
  their original order, and returns the length of that filtered list as the count.
\<close>

theorem FindTasks_returns_readable_tasks:
  assumes "svcFindTasks (TaskService ts) flt (store w) = ((us, n, None), s')"
  shows "FindTasks ts ctx flt w =
           ((filter (taskReadAllowed ts ctx) us,
             int (length (filter (taskReadAllowed ts ctx) us)), None),
            \<lparr>store = s', calls = calls w @ [CallFindTasks]\<rparr>)"
  using assms by (simp add: FindTasks_def invoke_def FindTasks_loop_filter Let_def)

text \<open>
  The instance: five tasks, three of them in the organization the principal may read.
\<close>

theorem FindTasks_returns_readable_tasks_witness:
  "svcFindTasks (TaskService exValidator) () (store exWorld) =
     (([exTask 1 1, exTask 2 2, exTask 3 1, exTask 4 2, exTask 5 1], 5, None), store exWorld)
   \<and> FindTasks exValidator exCtxReadOrg1 () exWorld =
       (([exTask 1 1, exTask 3 1, exTask 5 1], 3, None),
        \<lparr>store = store exWorld, calls = [CallFindTasks]\<rparr>)"
proof -
  have fetch: "svcFindTasks (TaskService exValidator) () (store exWorld) =
     (([exTask 1 1, exTask 2 2, exTask 3 1, exTask 4 2, exTask 5 1], 5, None), store exWorld)"
    by (simp add: exValidator_def exService_def exWorld_def)
  have readable: "filter (taskReadAllowed exValidator exCtxReadOrg1)
      [exTask 1 1, exTask 2 2, exTask 3 1, exTask 4 2, exTask 5 1] =
      [exTask 1 1, exTask 3 1, exTask 5 1]"
    by (simp add: taskReadAllowed_def permitted_def validatePermission_def
        example_validator_defs)
  have "calls exWorld = []"
    by (simp add: exWorld_def)
  with FindTasks_returns_readable_tasks [OF fetch, of exCtxReadOrg1] fetch readable
  show ?thesis by simp
qed

text \<open>
  C2.  \<open>CreateTask\<close> runs the write-permission check first and the pre-authorization of
  the script second.  If the permission check fails, its error is returned at once and
  nothing has reached the wrapped service, whatever the pre-authorization would say; if
  the permission check passes and the pre-authorization fails, its error is returned and
  again nothing has reached the wrapped service; if both pass, the result is that of the
  wrapped \<open>CreateTask\<close>.  So whenever a call was made to the wrapped service, both
  checks had passed, and the call is the one \<open>CreateTask\<close>.
\<close>

theorem CreateTask_delegates_only_after_both_checks:
  "(writePermissionCheck ts ctx t = Some err \<longrightarrow> CreateTask ts ctx t w = (Inl err, w))
   \<and> (writePermissionCheck ts ctx t = None \<and> validateBucket ts ctx (TaskCreate.Flux t) = Some err
        \<longrightarrow> CreateTask ts ctx t w = (Inl err, w))
   \<and> (writePermissionCheck ts ctx t = None \<and> validateBucket ts ctx (TaskCreate.Flux t) = None
        \<longrightarrow> CreateTask ts ctx t w = invoke (CallCreateTask t) (svcCreateTask (TaskService ts) t) w)
   \<and> (made w (snd (CreateTask ts ctx t w)) \<noteq> []
        \<longrightarrow> writePermissionCheck ts ctx t = None
            \<and> validateBucket ts ctx (TaskCreate.Flux t) = None
            \<and> made w (snd (CreateTask ts ctx t w)) = [CallCreateTask t])"
proof (cases rule: sum.exhaust [of "NewPermission ts WriteAction TasksResourceType (TaskCreate.OrganizationID t)"])
  case (Inl e)
  then show ?thesis
    by (simp add: CreateTask_def writePermissionCheck_def)
next
  case (Inr p)
  show ?thesis
  proof (cases rule: option.exhaust [of "validatePermission ctx p"])
    case None
    with Inr show ?thesis
      by (cases rule: option.exhaust [of "validateBucket ts ctx (TaskCreate.Flux t)"])
        (simp_all add: CreateTask_def writePermissionCheck_def made_invoke)
  next
    case (Some e)
    with Inr show ?thesis
      by (simp add: CreateTask_def writePermissionCheck_def)
  qed
qed

text \<open>
  Three instances: a principal with read permission only (the permission check fails), a
  principal of organization 1 whose script reads a bucket of organization 2 (the
  pre-authorization fails), and the same principal with a script of its own organization
  (the task is created).
\<close>

theorem CreateTask_delegates_only_after_both_checks_witness:
  "CreateTask exValidator exCtxReadOrg1 (exTaskCreate 1 1) exWorld =
     (Inl (AuthError \<lparr>Action = WriteAction,
                      Resource = \<lparr>Type = TasksResourceType, Resource.ID = None, OrgID = Some 1\<rparr>\<rparr> 101),
      exWorld)
   \<and> CreateTask exValidator exCtxOrg1 (exTaskCreate 1 2) exWorld =
     (Inl (PlatformError EInvalid ''Failed to authorize.''
             (Some (Errorf ''no read permission for bucket''))),
      exWorld)
   \<and> made exWorld (snd (CreateTask exValidator exCtxOrg1 (exTaskCreate 1 1) exWorld)) =
       [CallCreateTask (exTaskCreate 1 1)]"
proof -
  have denied: "writePermissionCheck exValidator exCtxReadOrg1 (exTaskCreate 1 1) =
      Some (AuthError \<lparr>Action = WriteAction,
                       Resource = \<lparr>Type = TasksResourceType, Resource.ID = None, OrgID = Some 1\<rparr>\<rparr> 101)"
    by (simp add: writePermissionCheck_def validatePermission_def example_validator_defs)
  have allowed: "writePermissionCheck exValidator exCtxOrg1 (exTaskCreate 1 b) = None" for b
    by (simp add: writePermissionCheck_def validatePermission_def example_validator_defs)
  have foreign: "validateBucket exValidator exCtxOrg1 (TaskCreate.Flux (exTaskCreate 1 2)) =
      Some (PlatformError EInvalid ''Failed to authorize.''
             (Some (Errorf ''no read permission for bucket'')))"
    by (simp add: validateBucket_def example_validator_defs)
  have own: "validateBucket exValidator exCtxOrg1 (TaskCreate.Flux (exTaskCreate 1 1)) = None"
    by (simp add: validateBucket_def example_validator_defs)
  from CreateTask_delegates_only_after_both_checks
    [of exValidator exCtxReadOrg1 "exTaskCreate 1 1" _ exWorld] denied
  have a: "CreateTask exValidator exCtxReadOrg1 (exTaskCreate 1 1) exWorld =
     (Inl (AuthError \<lparr>Action = WriteAction,
                      Resource = \<lparr>Type = TasksResourceType, Resource.ID = None, OrgID = Some 1\<rparr>\<rparr> 101),
      exWorld)"
    by blast
  from CreateTask_delegates_only_after_both_checks
    [of exValidator exCtxOrg1 "exTaskCreate 1 2" _ exWorld] allowed foreign
  have b: "CreateTask exValidator exCtxOrg1 (exTaskCreate 1 2) exWorld =
     (Inl (PlatformError EInvalid ''Failed to authorize.''
             (Some (Errorf ''no read permission for bucket''))),
      exWorld)"
    by blast
  from CreateTask_delegates_only_after_both_checks
    [of exValidator exCtxOrg1 "exTaskCreate 1 1" _ exWorld] allowed own
  have "CreateTask exValidator exCtxOrg1 (exTaskCreate 1 1) exWorld =
      invoke (CallCreateTask (exTaskCreate 1 1))
        (svcCreateTask (TaskService exValidator) (exTaskCreate 1 1)) exWorld"
    by blast
  then have c: "made exWorld (snd (CreateTask exValidator exCtxOrg1 (exTaskCreate 1 1) exWorld)) =
       [CallCreateTask (exTaskCreate 1 1)]"
    by (simp add: made_invoke)
  from a b c show ?thesis by simp
qed

subsection \<open>Log and run operations\<close>

lemma invoke_lookup:
  "svcFindTaskByID (TaskService ts) tid (store w) = (r, s1) \<Longrightarrow>
   invoke (CallFindTaskByID tid) (svcFindTaskByID (TaskService ts) tid) w =
     (r, \<lparr>store = s1, calls = calls w @ [CallFindTaskByID tid]\<rparr>)"
  by (simp add: invoke_def)

lemma made_lookup_only [simp]:
  "made w \<lparr>store = s1, calls = calls w @ [c]\<rparr> = [c]"
  by (simp add: made_def)

lemma made_lookup_invoke [simp]:
  "made w (snd (invoke c' f \<lparr>store = s1, calls = calls w @ [c]\<rparr>)) = [c, c']"
  by (simp add: made_def invoke_def split: prod.splits)

lemma FindTaskByID_found:
  assumes "svcFindTaskByID (TaskService ts) tid (store w) = (Inr task, s1)"
  shows "FindTaskByID ts ctx tid w =
           (if permitted ts ctx tid ReadAction (Task.OrganizationID task) then Inr task
            else Inl (case NewPermissionAtID ts tid ReadAction TasksResourceType (Task.OrganizationID task) of
                        Inl err \<Rightarrow> err
                      | Inr perm \<Rightarrow> the (validatePermission ctx perm)),
            \<lparr>store = s1, calls = calls w @ [CallFindTaskByID tid]\<rparr>)"
  using invoke_lookup [OF assms]
  by (auto simp: FindTaskByID_def permitted_def split: sum.splits option.splits)

text \<open>
  C4, as the code has it.  Let the wrapped service find the task \<open>tid\<close>.  The validator's
  own \<open>FindTaskByID\<close> then succeeds exactly when the read permission at the task is
  allowed.  \<open>FindLogs\<close> and \<open>FindRuns\<close> go through that \<open>FindTaskByID\<close>: they reach the
  wrapped operation exactly when the read permission is allowed (\<open>FindRuns\<close> checks it once
  more, at the identifier of the task found).  \<open>FindRunByID\<close>, \<open>CancelRun\<close>, \<open>RetryRun\<close> and
  \<open>ForceRun\<close> look the task up in the wrapped service themselves and make one check of
  their own: \<open>FindRunByID\<close> reaches the wrapped operation exactly when the read permission
  is allowed, the other three exactly when the write permission is allowed, whatever the
  read permission says.
\<close>

theorem run_operations_authorization:
  assumes "svcFindTaskByID (TaskService ts) tid (store w) = (Inr task, s1)"
    and "LogFilter.Task lf = tid" and "RunFilter.Task rf = tid"
  shows "(fst (FindTaskByID ts ctx tid w) = Inr task
            \<longleftrightarrow> permitted ts ctx tid ReadAction (Task.OrganizationID task))
       \<and> (made w (snd (FindLogs ts ctx lf w)) = [CallFindTaskByID tid, CallFindLogs lf]
            \<longleftrightarrow> permitted ts ctx tid ReadAction (Task.OrganizationID task))
       \<and> (made w (snd (FindRuns ts ctx rf w)) = [CallFindTaskByID tid, CallFindRuns rf]
            \<longleftrightarrow> permitted ts ctx tid ReadAction (Task.OrganizationID task)
              \<and> permitted ts ctx (Task.ID task) ReadAction (Task.OrganizationID task))
       \<and> (made w (snd (FindRunByID ts ctx tid rid w)) = [CallFindTaskByID tid, CallFindRunByID tid rid]
            \<longleftrightarrow> permitted ts ctx tid ReadAction (Task.OrganizationID task))
       \<and> (made w (snd (CancelRun ts ctx tid rid w)) = [CallFindTaskByID tid, CallCancelRun tid rid]
            \<longleftrightarrow> permitted ts ctx tid WriteAction (Task.OrganizationID task))
       \<and> (made w (snd (RetryRun ts ctx tid rid w)) = [CallFindTaskByID tid, CallRetryRun tid rid]
            \<longleftrightarrow> permitted ts ctx tid WriteAction (Task.OrganizationID task))
       \<and> (made w (snd (ForceRun ts ctx tid at w)) = [CallFindTaskByID tid, CallForceRun tid at]
            \<longleftrightarrow> permitted ts ctx tid WriteAction (Task.OrganizationID task))"
proof -
  note found = FindTaskByID_found [OF assms(1), of ctx]
  note lookup = invoke_lookup [OF assms(1)]
  have byid: "fst (FindTaskByID ts ctx tid w) = Inr task
      \<longleftrightarrow> permitted ts ctx tid ReadAction (Task.OrganizationID task)"
    by (simp add: found)
  have logs: "made w (snd (FindLogs ts ctx lf w)) = [CallFindTaskByID tid, CallFindLogs lf]
      \<longleftrightarrow> permitted ts ctx tid ReadAction (Task.OrganizationID task)"
    by (simp add: FindLogs_def assms(2) found)
  have runs: "made w (snd (FindRuns ts ctx rf w)) = [CallFindTaskByID tid, CallFindRuns rf]
      \<longleftrightarrow> permitted ts ctx tid ReadAction (Task.OrganizationID task)
        \<and> permitted ts ctx (Task.ID task) ReadAction (Task.OrganizationID task)"
    by (auto simp: FindRuns_def assms(3) found permitted_def split: sum.splits option.splits)
  have run: "made w (snd (FindRunByID ts ctx tid rid w)) = [CallFindTaskByID tid, CallFindRunByID tid rid]
      \<longleftrightarrow> permitted ts ctx tid ReadAction (Task.OrganizationID task)"
    by (auto simp: FindRunByID_def lookup permitted_def split: sum.splits option.splits)
  have cancel: "made w (snd (CancelRun ts ctx tid rid w)) = [CallFindTaskByID tid, CallCancelRun tid rid]
      \<longleftrightarrow> permitted ts ctx tid WriteAction (Task.OrganizationID task)"
    by (auto simp: CancelRun_def lookup permitted_def split: sum.splits option.splits)
  have retry: "made w (snd (RetryRun ts ctx tid rid w)) = [CallFindTaskByID tid, CallRetryRun tid rid]
      \<longleftrightarrow> permitted ts ctx tid WriteAction (Task.OrganizationID task)"
    by (auto simp: RetryRun_def lookup permitted_def split: sum.splits option.splits)
  have force: "made w (snd (ForceRun ts ctx tid at w)) = [CallFindTaskByID tid, CallForceRun tid at]
      \<longleftrightarrow> permitted ts ctx tid WriteAction (Task.OrganizationID task)"
    by (auto simp: ForceRun_def lookup permitted_def split: sum.splits option.splits)
  from byid logs runs run cancel retry force show ?thesis by blast
qed

text \<open>
  The instance: task 1 of organization 1 and a principal that may write there but not
  read.  The validator's \<open>FindTaskByID\<close> refuses the principal, \<open>FindLogs\<close> does not reach
  the wrapped service's logs, and \<open>CancelRun\<close>, \<open>RetryRun\<close> and \<open>ForceRun\<close> do reach the
  wrapped operation.
\<close>

theorem run_operations_authorization_witness:
  "svcFindTaskByID (TaskService exValidator) 1 (store exWorld) = (Inr (exTask 1 1), store exWorld)
   \<and> fst (FindTaskByID exValidator exCtxWriteOrg1 1 exWorld) \<noteq> Inr (exTask 1 1)
   \<and> made exWorld (snd (FindLogs exValidator exCtxWriteOrg1 \<lparr>LogFilter.Task = 1\<rparr> exWorld))
        \<noteq> [CallFindTaskByID 1, CallFindLogs \<lparr>LogFilter.Task = 1\<rparr>]
   \<and> made exWorld (snd (CancelRun exValidator exCtxWriteOrg1 1 7 exWorld)) =
        [CallFindTaskByID 1, CallCancelRun 1 7]
   \<and> made exWorld (snd (RetryRun exValidator exCtxWriteOrg1 1 7 exWorld)) =
        [CallFindTaskByID 1, CallRetryRun 1 7]
   \<and> made exWorld (snd (ForceRun exValidator exCtxWriteOrg1 1 60 exWorld)) =
        [CallFindTaskByID 1, CallForceRun 1 60]"
proof -
  have found: "svcFindTaskByID (TaskService exValidator) 1 (store exWorld) =
      (Inr (exTask 1 1), store exWorld)"
    by (simp add: example_validator_defs)
  have no_read: "\<not> permitted exValidator exCtxWriteOrg1 1 ReadAction (Task.OrganizationID (exTask 1 1))"
    by (simp add: permitted_def validatePermission_def example_validator_defs)
  have may_write: "permitted exValidator exCtxWriteOrg1 1 WriteAction (Task.OrganizationID (exTask 1 1))"
    by (simp add: permitted_def validatePermission_def example_validator_defs)
  have lf: "LogFilter.Task \<lparr>LogFilter.Task = 1\<rparr> = 1" and rf: "RunFilter.Task \<lparr>RunFilter.Task = 1\<rparr> = 1"
    by simp_all
  from run_operations_authorization [OF found lf rf, of exCtxWriteOrg1 7 60] found no_read may_write
  show ?thesis by simp
qed

text \<open>
  C4 as stated fails: the principal above has no task-read authorization (the
  validator's \<open>FindTaskByID\<close> answers with the authorization error for the read
  permission), and yet \<open>CancelRun\<close> succeeds and has reached the wrapped \<open>CancelRun\<close>.
\<close>

theorem CancelRun_needs_no_read_counterexample:
  "fst (FindTaskByID exValidator exCtxWriteOrg1 1 exWorld) =
     Inl (AuthError \<lparr>Action = ReadAction,
                     Resource = \<lparr>Type = TasksResourceType, Resource.ID = Some 1, OrgID = Some 1\<rparr>\<rparr> 102)
   \<and> fst (CancelRun exValidator exCtxWriteOrg1 1 7 exWorld) = None
   \<and> made exWorld (snd (CancelRun exValidator exCtxWriteOrg1 1 7 exWorld)) =
       [CallFindTaskByID 1, CallCancelRun 1 7]"
  by (simp add: FindTaskByID_def CancelRun_def invoke_def made_def validatePermission_def
      example_validator_defs)

section \<open>Properties of the document authorization\<close>

lemmas example_index_defs =
  exIndex_def exIndexWorld_def exToken_def documentsPermission_def

lemma markOrgs_iff: "markOrgs oids orgs k \<longleftrightarrow> orgs k \<or> k \<in> set oids"
  by (induction oids arbitrary: orgs) auto

lemma TokenAuthorized_loop_Cons:
  "TokenAuthorized_loop docID (markOrgs oids (\<lambda>oid. False)) (p # ps) =
     (if createMatch docID oids p then None
      else TokenAuthorized_loop docID (markOrgs oids (\<lambda>oid. False)) ps)"
  by (cases "Resource.ID (Resource p)"; cases "OrgID (Resource p)")
     (auto simp: createMatch_def markOrgs_iff)

lemma TokenAuthorized_loop_iff:
  "TokenAuthorized_loop docID (markOrgs oids (\<lambda>oid. False)) ps = None
     \<longleftrightarrow> holdsCreatePermission ps docID oids"
  unfolding holdsCreatePermission_def
  by (induction ps) (simp_all add: TokenAuthorized_loop_Cons del: TokenAuthorized_loop.simps(2))

text \<open>
  C7, as the code has it.  For an active token the create predicate first asks the index
  for the accessors of the document.  If that lookup fails, its error is the answer,
  whatever the token holds.  If it succeeds, the predicate succeeds exactly when some
  permission of the token is not a read permission, is on the documents resource type,
  and names the document, or names neither a document nor an organization, or names an
  organization among the accessors found (whether or not it names a document as well).
  A read permission never counts.
\<close>

theorem TokenAuthorized_create_condition:
  assumes "IsActive a"
  shows "(case GetDocumentsAccessors idx docID (store w) of
            Inl err \<Rightarrow> fst (TokenAuthorized a docID idx w) = Some err
          | Inr oids \<Rightarrow>
              (fst (TokenAuthorized a docID idx w) = None)
                = holdsCreatePermission (Permissions a) docID oids)"
  using assms
  by (simp add: TokenAuthorized_def query_def TokenAuthorized_loop_iff split: sum.splits)

text \<open>
  The instances: document 10 has the accessors 1 and 5.  A write permission on the
  documents of organization 5 satisfies the predicate, although it names another
  document; a read permission on all documents does not.
\<close>

theorem TokenAuthorized_create_condition_witness:
  "IsActive (exToken Active [documentsPermission WriteAction (Some 7) (Some 5)])
   \<and> GetDocumentsAccessors exIndex 10 (store exIndexWorld) = Inr [1, 5]
   \<and> fst (TokenAuthorized (exToken Active [documentsPermission WriteAction (Some 7) (Some 5)])
             10 exIndex exIndexWorld) = None
   \<and> fst (TokenAuthorized (exToken Active [documentsPermission ReadAction None None])
             10 exIndex exIndexWorld) \<noteq> None"
proof -
  have active: "IsActive (exToken Active ps)" for ps
    by (simp add: IsActive_def exToken_def)
  have found: "GetDocumentsAccessors exIndex 10 (store exIndexWorld) = Inr [1, 5]"
    by (simp add: example_index_defs)
  have holds: "holdsCreatePermission
      (Permissions (exToken Active [documentsPermission WriteAction (Some 7) (Some 5)])) 10 [1, 5]"
    by (simp add: holdsCreatePermission_def createMatch_def example_index_defs)
  have fails: "\<not> holdsCreatePermission
      (Permissions (exToken Active [documentsPermission ReadAction None None])) 10 [1, 5]"
    by (simp add: holdsCreatePermission_def createMatch_def example_index_defs)
  from TokenAuthorized_create_condition [OF active, where idx = exIndex and docID = 10 and w = exIndexWorld] found holds
  have yes: "fst (TokenAuthorized (exToken Active [documentsPermission WriteAction (Some 7) (Some 5)])
             10 exIndex exIndexWorld) = None"
    by simp
  from TokenAuthorized_create_condition [OF active, where idx = exIndex and docID = 10 and w = exIndexWorld] found fails
  have no: "fst (TokenAuthorized (exToken Active [documentsPermission ReadAction None None])
             10 exIndex exIndexWorld) \<noteq> None"
    by simp
  from active found yes no show ?thesis by simp
qed

text \<open>
  C7 as stated fails where the index cannot tell the accessors of the
  document: the token is active and holds a write permission on all documents (no
  document, no organization), which C7 takes as sufficient, and the predicate
  answers with the error of the lookup.
\<close>

theorem TokenAuthorized_lookup_error_counterexample:
  "IsActive (exToken Active [documentsPermission WriteAction None None])
   \<and> holdsCreatePermission (Permissions (exToken Active [documentsPermission WriteAction None None])) 99 []
   \<and> fst (TokenAuthorized (exToken Active [documentsPermission WriteAction None None])
             99 exIndex exIndexWorld)
       = Some (PlatformError ENotFound ''document not found'' None)"
  by (simp add: TokenAuthorized_def query_def IsActive_def holdsCreatePermission_def
      createMatch_def example_index_defs)

subsection \<open>The find predicates\<close>

lemma AuthorizedWhere_loop_collects:
  assumes "\<forall>org \<in> set orgIDs. lookupSucceeds idx s org"
  shows "store w = s \<Longrightarrow>
   AuthorizedWhere_loop idx orgIDs ids w =
     (Inr (ids @ concat (map (orgDocuments idx s) orgIDs)),
      ids @ concat (map (orgDocuments idx s) orgIDs),
      w\<lparr>calls := calls w @ map (CallGetAccessorsDocuments ''org'') orgIDs\<rparr>)"
  using assms
proof (induction orgIDs arbitrary: ids w)
  case Nil
  then show ?case by simp
next
  case (Cons org orgs)
  then show ?case
    by (auto simp: query_def lookupSucceeds_def orgDocuments_def split: sum.splits)
qed

lemma TokenAuthorizedWhere_loop_collects:
  assumes "\<forall>p \<in> set ps. \<forall>org.
             Type (Resource p) = DocumentsResourceType \<and> OrgID (Resource p) = Some org
               \<longrightarrow> lookupSucceeds idx s org"
  shows "store w = s \<Longrightarrow>
   fst (TokenAuthorizedWhere_loop idx ps ids w) =
     Inr (ids @ concat (map (permissionDocuments idx s) ps))"
  using assms
proof (induction ps arbitrary: ids w)
  case Nil
  then show ?case by simp
next
  case (Cons p ps)
  have rest: "\<forall>p \<in> set ps. \<forall>org.
      Type (Resource p) = DocumentsResourceType \<and> OrgID (Resource p) = Some org
        \<longrightarrow> lookupSucceeds idx s org"
    using Cons.prems(2) by simp
  note IH = Cons.IH [OF _ rest]
  show ?case
  proof (cases "Type (Resource p) = DocumentsResourceType \<and> OrgID (Resource p) \<noteq> None")
    case True
    then obtain org where org: "OrgID (Resource p) = Some org" by auto
    with True Cons.prems(2) have "lookupSucceeds idx s org" by simp
    then obtain oids where oids: "GetAccessorsDocuments idx ''org'' org s = Inr oids"
      by (auto simp: lookupSucceeds_def split: sum.splits)
    with True org Cons.prems(1) show ?thesis
      by (simp add: query_def IH permissionDocuments_def orgDocuments_def split: option.splits)
  next
    case False
    with Cons.prems(1) show ?thesis
      by (auto simp: IH permissionDocuments_def split: option.splits)
  qed
qed

text \<open>
  C6, as the code has it.  For a principal that is not a token, when the lookups of the
  index succeed, the find predicate returns what it had collected before (nothing, on
  its first call), then the documents the user owns, then the documents of each
  organization of the user, in the order of the lookups: a concatenation, from which no
  duplicate is removed.  For an active token it returns instead, permission by
  permission, the documents of the organization a documents permission names and the
  document it names.
\<close>

theorem AuthorizedWhere_concatenates_lookups:
  "(GetAccessorsDocuments idx ''user'' userID (store w) = Inr dids
      \<and> UsersOrgs idx userID (store w) = Inr orgIDs
      \<and> (\<forall>org \<in> set orgIDs. lookupSucceeds idx (store w) org)
    \<longrightarrow> fst (AuthorizedWhere (OtherAuthorizer userID) ids idx w) =
          Inr (ids @ dids @ concat (map (orgDocuments idx (store w)) orgIDs)))
   \<and> (IsActive a
      \<and> (\<forall>p \<in> set (Permissions a). \<forall>org.
            Type (Resource p) = DocumentsResourceType \<and> OrgID (Resource p) = Some org
              \<longrightarrow> lookupSucceeds idx (store w) org)
    \<longrightarrow> fst (AuthorizedWhere (TokenAuthorizer a) ids idx w) =
          Inr (ids @ concat (map (permissionDocuments idx (store w)) (Permissions a))))"
proof (intro conjI impI)
  assume h: "GetAccessorsDocuments idx ''user'' userID (store w) = Inr dids
      \<and> UsersOrgs idx userID (store w) = Inr orgIDs
      \<and> (\<forall>org \<in> set orgIDs. lookupSucceeds idx (store w) org)"
  then have ok: "\<forall>org \<in> set orgIDs. lookupSucceeds idx (store w) org" by simp
  from h show "fst (AuthorizedWhere (OtherAuthorizer userID) ids idx w) =
          Inr (ids @ dids @ concat (map (orgDocuments idx (store w)) orgIDs))"
    by (simp add: AuthorizedWhere_def query_def AuthorizedWhere_loop_collects [OF ok])
next
  assume h: "IsActive a
      \<and> (\<forall>p \<in> set (Permissions a). \<forall>org.
            Type (Resource p) = DocumentsResourceType \<and> OrgID (Resource p) = Some org
              \<longrightarrow> lookupSucceeds idx (store w) org)"
  then have ok: "\<forall>p \<in> set (Permissions a). \<forall>org.
            Type (Resource p) = DocumentsResourceType \<and> OrgID (Resource p) = Some org
              \<longrightarrow> lookupSucceeds idx (store w) org" by simp
  from h show "fst (AuthorizedWhere (TokenAuthorizer a) ids idx w) =
          Inr (ids @ concat (map (permissionDocuments idx (store w)) (Permissions a)))"
    by (simp add: AuthorizedWhere_def TokenAuthorizedWhere_def
        TokenAuthorizedWhere_loop_collects [OF ok])
qed

text \<open>
  The instances: user 1 owns document 10 and belongs to organization 5, which owns
  documents 10 and 11; the token holds one read permission that names organization 5
  and document 7.
\<close>

theorem AuthorizedWhere_concatenates_lookups_witness:
  "GetAccessorsDocuments exIndex ''user'' 1 (store exIndexWorld) = Inr [10]
   \<and> UsersOrgs exIndex 1 (store exIndexWorld) = Inr [5]
   \<and> lookupSucceeds exIndex (store exIndexWorld) 5
   \<and> fst (AuthorizedWhere (OtherAuthorizer 1) [] exIndex exIndexWorld) = Inr [10, 10, 11]
   \<and> IsActive (exToken Active [documentsPermission ReadAction (Some 7) (Some 5)])
   \<and> fst (AuthorizedWhere
            (TokenAuthorizer (exToken Active [documentsPermission ReadAction (Some 7) (Some 5)]))
            [] exIndex exIndexWorld) = Inr [10, 11, 7]"
proof -
  let ?a = "exToken Active [documentsPermission ReadAction (Some 7) (Some 5)]"
  have own: "GetAccessorsDocuments exIndex ''user'' 1 (store exIndexWorld) = Inr [10]"
    and orgs: "UsersOrgs exIndex 1 (store exIndexWorld) = Inr [5]"
    and ok: "lookupSucceeds exIndex (store exIndexWorld) 5"
    and docs: "orgDocuments exIndex (store exIndexWorld) 5 = [10, 11]"
    by (simp_all add: lookupSucceeds_def orgDocuments_def example_index_defs)
  have active: "IsActive ?a"
    by (simp add: IsActive_def exToken_def)
  have perms: "Permissions ?a = [documentsPermission ReadAction (Some 7) (Some 5)]"
    by (simp add: exToken_def)
  have contributes: "permissionDocuments exIndex (store exIndexWorld)
      (documentsPermission ReadAction (Some 7) (Some 5)) = [10, 11, 7]"
    by (simp add: permissionDocuments_def documentsPermission_def docs)
  have scoped: "OrgID (Resource (documentsPermission ReadAction (Some 7) (Some 5))) = Some 5"
    by (simp add: documentsPermission_def)
  note inst = AuthorizedWhere_concatenates_lookups
    [where idx = exIndex and w = exIndexWorld and userID = 1 and dids = "[10]"
       and orgIDs = "[5]" and ids = "[]" and a = ?a]
  from inst own orgs ok docs
  have user: "fst (AuthorizedWhere (OtherAuthorizer 1) [] exIndex exIndexWorld) = Inr [10, 10, 11]"
    by simp
  from inst active perms contributes scoped ok
  have token: "fst (AuthorizedWhere (TokenAuthorizer ?a) [] exIndex exIndexWorld) = Inr [10, 11, 7]"
    by simp
  from own orgs ok user active token show ?thesis by simp
qed

text \<open>
  C6 as stated fails: document 10 is owned by user 1 and by the user's
  organization 5, and the find predicate returns it twice.
\<close>

theorem AuthorizedWhere_duplicates_counterexample:
  "GetAccessorsDocuments exIndex ''user'' 1 (store exIndexWorld) = Inr [10]
   \<and> UsersOrgs exIndex 1 (store exIndexWorld) = Inr [5]
   \<and> GetAccessorsDocuments exIndex ''org'' 5 (store exIndexWorld) = Inr [10, 11]
   \<and> fst (AuthorizedWhere (OtherAuthorizer 1) [] exIndex exIndexWorld) = Inr [10, 10, 11]
   \<and> \<not> distinct [10, 10, 11 :: ID]"
  by (simp add: AuthorizedWhere_def query_def example_index_defs)

subsection \<open>Inactive tokens\<close>

text \<open>
  C9.  For an inactive token each of the four predicates answers with an Unauthorized
  error at once: the answer names neither the permissions of the token nor the index,
  and the record of the calls to the index is as it was.
\<close>

theorem inactive_token_is_refused_at_once:
  assumes "\<not> IsActive a"
  shows "TokenAuthorized a docID idx w =
           (Some (PlatformError EUnauthorized ''authorizer cannot access document'' None), w)
       \<and> TokenAuthorizedWithOrg allowed a org docID idx w =
           (Some (PlatformError EUnauthorized ''authorization cannot add org as document owner'' None), w)
       \<and> TokenAuthorizedWhere a ids idx w =
           (Inl (PlatformError EUnauthorized ''authorizer cannot access documents'' None), ids, w)
       \<and> TokenAuthorizedWhereID a docID idx w =
           (Inl (PlatformError EUnauthorized ''authorizer cannot access documents'' None), w)"
  using assms
  by (simp add: TokenAuthorized_def TokenAuthorizedWithOrg_def TokenAuthorizedWhere_def
      TokenAuthorizedWhereID_def)

text \<open>
  The instance: an inactive token that holds a write permission on all documents, at a
  document the index knows.
\<close>

theorem inactive_token_is_refused_at_once_witness:
  "\<not> IsActive (exToken Inactive [documentsPermission WriteAction None None])
   \<and> TokenAuthorized (exToken Inactive [documentsPermission WriteAction None None]) 10 exIndex exIndexWorld =
       (Some (PlatformError EUnauthorized ''authorizer cannot access document'' None), exIndexWorld)
   \<and> TokenAuthorizedWithOrg (\<lambda>a p. True) (exToken Inactive [documentsPermission WriteAction None None])
         ''acme'' 10 exIndex exIndexWorld =
       (Some (PlatformError EUnauthorized ''authorization cannot add org as document owner'' None),
        exIndexWorld)
   \<and> TokenAuthorizedWhere (exToken Inactive [documentsPermission WriteAction None None]) [] exIndex exIndexWorld =
       (Inl (PlatformError EUnauthorized ''authorizer cannot access documents'' None), [], exIndexWorld)
   \<and> TokenAuthorizedWhereID (exToken Inactive [documentsPermission WriteAction None None]) 10 exIndex exIndexWorld =
       (Inl (PlatformError EUnauthorized ''authorizer cannot access documents'' None), exIndexWorld)"
proof -
  have inactive: "\<not> IsActive (exToken Inactive [documentsPermission WriteAction None None])"
    by (simp add: IsActive_def exToken_def)
  from inactive_token_is_refused_at_once
    [OF inactive, where idx = exIndex and w = exIndexWorld and docID = 10 and ids = "[]"
       and allowed = "\<lambda>a p. True" and org = "''acme''"] inactive
  show ?thesis by simp
qed

section \<open>Properties of the query service bridges\<close>

lemmas example_query_defs =
  exEnv_def exHandlerEnv_def exIterator_def exMarshal_def exWriter_def exProxyRequest_def
  zeroStatistics_def setHeader_def

subsection \<open>The proxy bridge\<close>

text \<open>
  Whenever the proxy bridge serializes the statistics trailer, that is, when the writer
  is an \<open>http.ResponseWriter\<close>, the encoder returns without an error and \<open>Statistics\<close>
  returns, the statistics were read from the iterator as the encoder left it, and the
  deferred \<open>Release\<close> is the last call of all.
\<close>

lemma ProxyQueryServiceBridge_Query_trailer_order:
  assumes "svcQuery env (Request req) = Returns (Inr results)"
    and "isResponseWriter w"
    and "encEncode env (setHeader ''Trailer'' ''Influx-Query-Statistics'' w) results =
           (w2, it1, Returns (n, None))"
    and "itStatistics env it1 = Returns st"
  shows "snd (snd (ProxyQueryServiceBridge_Query env w req)) =
           [EvQuery, EvEncode, EvStatistics, EvRelease]
       \<and> Header (fst (snd (ProxyQueryServiceBridge_Query env w req))) ''Influx-Query-Statistics'' =
           Some (case jsonMarshal env st of Inl e \<Rightarrow> [] | Inr d \<Rightarrow> d)"
  using assms
  by (simp add: ProxyQueryServiceBridge_Query_def ProxyQueryServiceBridge_Query_body_def
      setHeader_def Let_def split: outcome.splits)

text \<open>
  C1 at a concrete input: the iterator's statistics are the zero value while it is open
  and its final statistics (marshalled as \<open>final\<close>) once it is released.  The proxy
  bridge reads \<open>Statistics\<close> before \<open>Release\<close> and sends the zero statistics as the
  trailer.
\<close>

theorem ProxyQueryServiceBridge_Query_reads_statistics_before_release:
  "(case ProxyQueryServiceBridge_Query
           (exEnv (Returns (Inr (exIterator None))) (Returns (3, None)) ''a,b'')
           exWriter exProxyRequest of
      (res, w', evs) \<Rightarrow>
        res = Returns (3, None)
        \<and> evs = [EvQuery, EvEncode, EvStatistics, EvRelease]
        \<and> Body w' = ''a,b''
        \<and> Header w' ''Influx-Query-Statistics'' = Some ''zero'')
   \<and> exMarshal zeroStatistics = Inr ''zero''
   \<and> exMarshal (finalStatistics (exIterator None)) = Inr ''final''"
  by (simp add: ProxyQueryServiceBridge_Query_def ProxyQueryServiceBridge_Query_body_def
      example_query_defs)

subsection \<open>The logging bridge\<close>

lemma logged_append [simp]: "logged (xs @ ys) = logged xs @ logged ys"
  by (induction xs rule: logged.induct) simp_all

lemma LoggingServiceBridge_Query_body_logs_nothing:
  "logged (trace (fst (LoggingServiceBridge_Query_body env w req))) = []"
  by (simp add: LoggingServiceBridge_Query_body_def Let_def
      split: outcome.splits sum.splits option.splits prod.splits)

lemma deferredRelease_frame:
  "logged (trace (deferredRelease env it fr)) = logged (trace fr)
   \<and> res_n (deferredRelease env it fr) = res_n fr
   \<and> res_err (deferredRelease env it fr) = res_err fr
   \<and> writer (deferredRelease env it fr) = writer fr"
  by (simp add: deferredRelease_def split: outcome.splits)

lemma recoverInto_simps [simp]:
  "recoverInto None err = err"
  "recoverInto (Some PanicNil) err = err"
  "recoverInto (Some (PanicValue v)) err = Some (Errorf (''panic: '' @ v))"
  by (simp_all add: recoverInto_def)

lemma recoverInto_Some: "recoverInto r (Some e) \<noteq> None"
  by (simp add: recoverInto_def split: option.splits panic.splits)

lemma deferredLog_frame:
  "\<exists>l. trace (deferredLog env req fr) = trace fr @ [EvLog l]
      \<and> finish (deferredLog env req fr) = Returns (ResponseSize l, Error l)
      \<and> writer (deferredLog env req fr) = writer fr
      \<and> ResponseSize l = res_n fr
      \<and> Log.Statistics l = var_stats fr
      \<and> Error l = recoverInto (panicking fr) (res_err fr)"
  by (simp add: deferredLog_def finish_def Let_def)

lemma LoggingServiceBridge_Query_log:
  "\<exists>l. snd (snd (LoggingServiceBridge_Query env w req)) =
          trace (LoggingServiceBridge_Query_released env w req) @ [EvLog l]
      \<and> fst (LoggingServiceBridge_Query env w req) = Returns (ResponseSize l, Error l)
      \<and> fst (snd (LoggingServiceBridge_Query env w req)) =
          writer (LoggingServiceBridge_Query_released env w req)
      \<and> ResponseSize l = res_n (LoggingServiceBridge_Query_released env w req)
      \<and> Log.Statistics l = var_stats (LoggingServiceBridge_Query_released env w req)
      \<and> Error l =
          recoverInto (panicking (LoggingServiceBridge_Query_released env w req))
            (res_err (LoggingServiceBridge_Query_released env w req))"
  using deferredLog_frame [of env req "LoggingServiceBridge_Query_released env w req"]
  by (simp add: LoggingServiceBridge_Query_def Let_def)

lemma released_logs_nothing:
  "logged (trace (LoggingServiceBridge_Query_released env w req)) = []"
  using LoggingServiceBridge_Query_body_logs_nothing [of env w req]
  by (auto simp: LoggingServiceBridge_Query_released_def deferredRelease_frame
      split: prod.splits option.splits)





lemma released_iterator_error:
  "svcQuery env (Request req) = Returns (Inr results) \<Longrightarrow>
   encEncode env w results = (w1, it1, Returns (n, None)) \<Longrightarrow>
   itErr env it1 = Returns (Some e) \<Longrightarrow>
   res_n (LoggingServiceBridge_Query_released env w req) = 0
   \<and> res_err (LoggingServiceBridge_Query_released env w req) = Some (traceLogError env e)
   \<and> writer (LoggingServiceBridge_Query_released env w req) = w1"
  by (simp add: LoggingServiceBridge_Query_released_def LoggingServiceBridge_Query_body_def
      deferredRelease_def split: outcome.splits)




text \<open>
  C10.  If the encoder returns without an error and the iterator then reports an error,
  the logging bridge returns the byte count 0 and the record it logs has the response
  size 0, whatever count \<open>n\<close> the encoder returned and whatever it wrote to the writer
  (which is passed on as the encoder left it); unless the deferred release panics, the
  error returned and logged is the iterator's.
\<close>

theorem LoggingServiceBridge_Query_iterator_error_zero_count:
  assumes "svcQuery env (Request req) = Returns (Inr results)"
    and "encEncode env w results = (w1, it1, Returns (n, None))"
    and "itErr env it1 = Returns (Some e)"
  shows "\<exists>l. logged (snd (snd (LoggingServiceBridge_Query env w req))) = [l]
      \<and> ResponseSize l = 0
      \<and> fst (LoggingServiceBridge_Query env w req) = Returns (0, Error l)
      \<and> fst (snd (LoggingServiceBridge_Query env w req)) = w1
      \<and> Error l \<noteq> None
      \<and> (itRelease env it1 = Returns it2 \<and> itStatistics env it2 = Returns st
           \<longrightarrow> Error l = Some (traceLogError env e))"
proof -
  from LoggingServiceBridge_Query_log [of env w req] obtain l where
    tr: "snd (snd (LoggingServiceBridge_Query env w req)) =
          trace (LoggingServiceBridge_Query_released env w req) @ [EvLog l]"
    and res: "fst (LoggingServiceBridge_Query env w req) = Returns (ResponseSize l, Error l)"
    and wr: "fst (snd (LoggingServiceBridge_Query env w req)) =
          writer (LoggingServiceBridge_Query_released env w req)"
    and size: "ResponseSize l = res_n (LoggingServiceBridge_Query_released env w req)"
    and err: "Error l =
          recoverInto (panicking (LoggingServiceBridge_Query_released env w req))
            (res_err (LoggingServiceBridge_Query_released env w req))"
    by blast
  note frame = released_iterator_error [OF assms]
  have once: "logged (snd (snd (LoggingServiceBridge_Query env w req))) = [l]"
    by (simp add: tr released_logs_nothing)
  have zero: "ResponseSize l = 0"
    by (simp add: size frame)
  have some: "Error l \<noteq> None"
    by (simp add: err frame recoverInto_Some)
  have calm: "Error l = Some (traceLogError env e)"
    if "itRelease env it1 = Returns it2 \<and> itStatistics env it2 = Returns st"
  proof -
    from that assms have "panicking (LoggingServiceBridge_Query_released env w req) = None"
      by (simp add: LoggingServiceBridge_Query_released_def LoggingServiceBridge_Query_body_def
          deferredRelease_def)
    then show ?thesis by (simp add: err frame)
  qed
  from once zero res wr frame some calm show ?thesis
    by auto
qed

text \<open>
  The instance: the encoder wrote three bytes and returned the count 3; the iterator
  reports an error.
\<close>

theorem LoggingServiceBridge_Query_iterator_error_zero_count_witness:
  "encEncode (exEnv (Returns (Inr (exIterator (Some (Errorf ''read failed''))))) (Returns (3, None)) ''a,b'')
      exWriter (exIterator (Some (Errorf ''read failed''))) =
     (exWriter\<lparr>Body := ''a,b''\<rparr>, exIterator (Some (Errorf ''read failed'')), Returns (3, None))
   \<and> fst (LoggingServiceBridge_Query
        (exEnv (Returns (Inr (exIterator (Some (Errorf ''read failed''))))) (Returns (3, None)) ''a,b'')
        exWriter exProxyRequest) = Returns (0, Some (Errorf ''read failed''))
   \<and> Body (fst (snd (LoggingServiceBridge_Query
        (exEnv (Returns (Inr (exIterator (Some (Errorf ''read failed''))))) (Returns (3, None)) ''a,b'')
        exWriter exProxyRequest))) = ''a,b''
   \<and> map ResponseSize (logged (snd (snd (LoggingServiceBridge_Query
        (exEnv (Returns (Inr (exIterator (Some (Errorf ''read failed''))))) (Returns (3, None)) ''a,b'')
        exWriter exProxyRequest)))) = [0]"
proof -
  let ?it = "exIterator (Some (Errorf ''read failed''))"
  let ?env = "exEnv (Returns (Inr ?it)) (Returns (3, None)) ''a,b''"
  have q: "svcQuery ?env (Request exProxyRequest) = Returns (Inr ?it)"
    and enc: "encEncode ?env exWriter ?it = (exWriter\<lparr>Body := ''a,b''\<rparr>, ?it, Returns (3, None))"
    and bad: "itErr ?env ?it = Returns (Some (Errorf ''read failed''))"
    and rel: "itRelease ?env ?it = Returns (?it\<lparr>released := True\<rparr>)
        \<and> itStatistics ?env (?it\<lparr>released := True\<rparr>) =
            Returns \<lparr>TotalDuration = 42, Metadata = Some []\<rparr>"
    and keep: "traceLogError ?env (Errorf ''read failed'') = Errorf ''read failed''"
    by (simp_all add: exEnv_def exIterator_def exWriter_def)
  from LoggingServiceBridge_Query_iterator_error_zero_count
    [OF q enc bad, where ?it2.0 = "?it\<lparr>released := True\<rparr>"
       and st = "\<lparr>TotalDuration = 42, Metadata = Some []\<rparr>"] rel keep enc
  show ?thesis by auto
qed

section \<open>Properties of the HTTP query handler\<close>

lemma errorResponses_append [simp]:
  "errorResponses (xs @ ys) = errorResponses xs @ errorResponses ys"
  by (induction xs rule: errorResponses.induct) simp_all

lemma loggedLines_append [simp]:
  "loggedLines (xs @ ys) = loggedLines xs @ loggedLines ys"
  by (induction xs rule: loggedLines.induct) simp_all

lemma Body_setHeader [simp]: "Body (setHeader k v w) = Body w"
  by (simp add: setHeader_def)

text \<open>
  The end of the handler writes no error response, leaves the body alone and logs at
  most the line about the statistics.
\<close>

lemma handlePostQuery_finish_frame:
  "handlePostQuery_finish env req w results st c = (p, w', evs) \<Longrightarrow>
   Body w' = Body w \<and> errorResponses evs = []
   \<and> (''Failed to encode client response'', e) \<notin> set (loggedLines evs)"
  by (auto simp: handlePostQuery_finish_def Let_def
      split: if_splits option.splits outcome.splits sum.splits)

text \<open>
  After an encoding that ended in the error \<open>e\<close> with the count \<open>n\<close>: what the rest of
  the handler's body does to the writer \<open>w3\<close> the encoder left.
\<close>

lemma handlePostQuery_body_after_error:
  assumes "encEncode env (csvSetHeaders env (setHeader ''Trailer'' ''Influx-Query-Statistics'' w)) results =
             (w3, it1, Returns (n, Some e))"
    and "handlePostQuery_body env req w results = (p, w', it', evs)"
  shows "(n = 0 \<longrightarrow> errorResponses evs = [e]
            \<and> (''Failed to encode client response'', e) \<notin> set (loggedLines evs)
            \<and> Body w' = Body (EncodeError env e w3))
       \<and> (n \<noteq> 0 \<longrightarrow> errorResponses evs = []
            \<and> (''Failed to encode client response'', e) \<in> set (loggedLines evs)
            \<and> Body w' = Body w3)"
proof (cases rule: outcome.exhaust [of "itRelease env it1"])
  case (Panics r)
  with assms show ?thesis
    by (auto simp: handlePostQuery_body_def Let_def)
next
  case (Returns it2)
  show ?thesis
  proof (cases rule: outcome.exhaust [of "itStatistics env it2"])
    case (Panics r)
    with Returns assms show ?thesis
      by (auto simp: handlePostQuery_body_def Let_def)
  next
    case (Returns st)
    obtain p5 w5 evs5 where fin:
      "handlePostQuery_finish env req (if n = 0 then EncodeError env e w3 else w3) it2 st
         (countWritten (csvSetHeaders env (setHeader ''Trailer'' ''Influx-Query-Statistics'' w)) w3)
       = (p5, w5, evs5)"
      by (cases rule: prod_cases3)
    note frame = handlePostQuery_finish_frame [OF fin, of e]
    from assms \<open>itRelease env it1 = Returns it2\<close> Returns fin frame show ?thesis
      by (auto simp: handlePostQuery_body_def Let_def)
  qed
qed

text \<open>
  C8.  Let the request decode, the query service return an iterator, and the encoder end
  in the error \<open>e\<close> with the count \<open>n\<close> of bytes written.  If \<open>n\<close> is zero, the handler
  writes exactly one error response, the one for \<open>e\<close>, and logs no encoding failure: the
  body the client gets is the one \<open>EncodeError\<close> produces.  If \<open>n\<close> is not zero, the
  handler writes no error response and logs the failure with \<open>e\<close>: the body stays as the
  encoder left it.
\<close>

theorem handlePostQuery_encoding_error:
  assumes "decodeRequest env = Inr req"
    and "svcQuery env req = Returns (Inr results)"
    and "encEncode env (csvSetHeaders env (setHeader ''Trailer'' ''Influx-Query-Statistics'' w)) results =
           (w3, it1, Returns (n, Some e))"
  shows "(n = 0 \<longrightarrow>
            errorResponses (snd (snd (handlePostQuery env w))) = [e]
            \<and> (''Failed to encode client response'', e) \<notin> set (loggedLines (snd (snd (handlePostQuery env w))))
            \<and> Body (fst (snd (handlePostQuery env w))) = Body (EncodeError env e w3))
       \<and> (n \<noteq> 0 \<longrightarrow>
            errorResponses (snd (snd (handlePostQuery env w))) = []
            \<and> (''Failed to encode client response'', e) \<in> set (loggedLines (snd (snd (handlePostQuery env w))))
            \<and> Body (fst (snd (handlePostQuery env w))) = Body w3)"
proof -
  obtain p w' it' evs where body: "handlePostQuery_body env req w results = (p, w', it', evs)"
    by (cases rule: prod_cases4)
  note after = handlePostQuery_body_after_error [OF assms(3) body]
  have run: "fst (snd (handlePostQuery env w)) = w'
      \<and> snd (snd (handlePostQuery env w)) = EvQuery # evs @ [EvRelease]"
    using assms(1,2) body
    by (simp add: handlePostQuery_def split: outcome.splits)
  from after show ?thesis
    by (simp add: run)
qed

text \<open>
  Two instances: the encoder fails before it has written anything, and the encoder fails
  after three bytes.
\<close>

theorem handlePostQuery_encoding_error_witness:
  "Body (fst (snd (handlePostQuery
       (exHandlerEnv (Returns (Inr (exIterator None))) (Returns (0, Some (Errorf ''bad column''))) [])
       exWriter))) = ''{error}''
   \<and> errorResponses (snd (snd (handlePostQuery
       (exHandlerEnv (Returns (Inr (exIterator None))) (Returns (0, Some (Errorf ''bad column''))) [])
       exWriter))) = [Errorf ''bad column'']
   \<and> Body (fst (snd (handlePostQuery
       (exHandlerEnv (Returns (Inr (exIterator None))) (Returns (3, Some (Errorf ''bad column''))) ''a,b'')
       exWriter))) = ''a,b''
   \<and> errorResponses (snd (snd (handlePostQuery
       (exHandlerEnv (Returns (Inr (exIterator None))) (Returns (3, Some (Errorf ''bad column''))) ''a,b'')
       exWriter))) = []
   \<and> (''Failed to encode client response'', Errorf ''bad column'')
       \<in> set (loggedLines (snd (snd (handlePostQuery
       (exHandlerEnv (Returns (Inr (exIterator None))) (Returns (3, Some (Errorf ''bad column''))) ''a,b'')
       exWriter))))"
proof -
  let ?req = "\<lparr>Request.OrganizationID = 1, Compiler = ''from(bucket)''\<rparr>"
  let ?w2 = "setHeader ''Content-Type'' ''text/csv''
               (setHeader ''Trailer'' ''Influx-Query-Statistics'' exWriter)"
  have env: "decodeRequest (exHandlerEnv q enc written) = Inr ?req"
      "svcQuery (exHandlerEnv q enc written) r = q"
      "csvSetHeaders (exHandlerEnv q enc written) = setHeader ''Content-Type'' ''text/csv''"
      "encEncode (exHandlerEnv q enc written) ?w2 it = (?w2\<lparr>Body := Body ?w2 @ written\<rparr>, it, enc)"
      "Body (EncodeError (exHandlerEnv q enc written) e w) = Body w @ ''{error}''"
    for q enc written it e w r
    by (simp_all add: exHandlerEnv_def)
  have empty: "Body ?w2 = []" "Body exWriter = []"
    by (simp_all add: exWriter_def)
  from handlePostQuery_encoding_error
    [where env = "exHandlerEnv (Returns (Inr (exIterator None))) (Returns (0, Some (Errorf ''bad column''))) []"
       and w = exWriter and req = ?req and results = "exIterator None" and n = 0
       and e = "Errorf ''bad column''" and ?w3.0 = "?w2\<lparr>Body := Body ?w2 @ []\<rparr>"
       and ?it1.0 = "exIterator None"]
  have none: "Body (fst (snd (handlePostQuery
       (exHandlerEnv (Returns (Inr (exIterator None))) (Returns (0, Some (Errorf ''bad column''))) [])
       exWriter))) = ''{error}''
     \<and> errorResponses (snd (snd (handlePostQuery
       (exHandlerEnv (Returns (Inr (exIterator None))) (Returns (0, Some (Errorf ''bad column''))) [])
       exWriter))) = [Errorf ''bad column'']"
    by (simp add: env empty)
  from handlePostQuery_encoding_error
    [where env = "exHandlerEnv (Returns (Inr (exIterator None))) (Returns (3, Some (Errorf ''bad column''))) ''a,b''"
       and w = exWriter and req = ?req and results = "exIterator None" and n = 3
       and e = "Errorf ''bad column''" and ?w3.0 = "?w2\<lparr>Body := Body ?w2 @ ''a,b''\<rparr>"
       and ?it1.0 = "exIterator None"]
  have some: "Body (fst (snd (handlePostQuery
       (exHandlerEnv (Returns (Inr (exIterator None))) (Returns (3, Some (Errorf ''bad column''))) ''a,b'')
       exWriter))) = ''a,b''
     \<and> errorResponses (snd (snd (handlePostQuery
       (exHandlerEnv (Returns (Inr (exIterator None))) (Returns (3, Some (Errorf ''bad column''))) ''a,b'')
       exWriter))) = []
     \<and> (''Failed to encode client response'', Errorf ''bad column'')
       \<in> set (loggedLines (snd (snd (handlePostQuery
       (exHandlerEnv (Returns (Inr (exIterator None))) (Returns (3, Some (Errorf ''bad column''))) ''a,b'')
       exWriter))))"
    by (simp add: env empty)
  from none some show ?thesis by simp
qed

end
